theory Spec2Isabelle
  imports Complex_Main
begin

section \<open>Errors and Python containers\<close>

text \<open>
  The learning engine of \<^verbatim>\<open>src/ps_ppo/ps_ppo_flatland.py\<close> (classes \<^verbatim>\<open>Memory\<close>,
  \<^verbatim>\<open>PsPPOPolicy\<close> and \<^verbatim>\<open>PsPPO\<close>) is embedded here.  Every exception of the source is a
  value: a function that can raise returns \<open>error + 'a\<close>, with \<open>Inl\<close> the exception.
  Tensor entries are exact reals; where the source produces a not-a-number whatever the
  rounding (the mean of an empty tensor, the sample deviation of fewer than two entries)
  the model says so with the type \<open>fl\<close>.  What the tensor library does inside a network
  (the forward pass, the gradient step, reading a parameter file) is a parameter of the
  model.
\<close>

datatype error =
    IndexError
  | AssertionError
  | ValueError
  | RuntimeError
  | PyException string

definition thenE :: "error + 'a \<Rightarrow> ('a \<Rightarrow> error + 'b) \<Rightarrow> error + 'b" where
  "thenE m f = (case m of Inl e \<Rightarrow> Inl e | Inr x \<Rightarrow> f x)"

text \<open>A \<^verbatim>\<open>for\<close> loop whose body can raise: the first exception ends the loop.\<close>

fun foldE :: "('a \<Rightarrow> 's \<Rightarrow> error + 's) \<Rightarrow> 'a list \<Rightarrow> 's \<Rightarrow> error + 's" where
  "foldE f [] s = Inr s"
| "foldE f (x # xs) s = (case f x s of Inl e \<Rightarrow> Inl e | Inr s' \<Rightarrow> foldE f xs s')"

text \<open>\<^verbatim>\<open>xs[t]\<close> for an index \<open>t \<ge> 0\<close>; \<^verbatim>\<open>xs[-1]\<close>; \<^verbatim>\<open>xs[i:j]\<close> for \<open>0 \<le> i\<close>, \<open>0 \<le> j\<close>.\<close>

definition tensor_get :: "'a list \<Rightarrow> nat \<Rightarrow> error + 'a" where
  "tensor_get xs t = (if t < length xs then Inr (xs ! t) else Inl IndexError)"

definition tensor_last :: "'a list \<Rightarrow> error + 'a" where
  "tensor_last xs = (if xs = [] then Inl IndexError else Inr (last xs))"

definition slice :: "'a list \<Rightarrow> nat \<Rightarrow> nat \<Rightarrow> 'a list" where
  "slice xs i j = take (j - i) (drop i xs)"

text \<open>
  \<^verbatim>\<open>xss[a]\<close> on a Python list with an integer that may be negative: the position it
  denotes, or \<^verbatim>\<open>IndexError\<close>.
\<close>

definition py_index :: "'a list \<Rightarrow> int \<Rightarrow> error + nat" where
  "py_index xss a =
     (if 0 \<le> a \<and> a < int (length xss) then Inr (nat a)
      else if a < 0 \<and> - int (length xss) \<le> a then Inr (nat (int (length xss) + a))
      else Inl IndexError)"

definition item_at :: "'a list list \<Rightarrow> int \<Rightarrow> error + 'a list" where
  "item_at xss a = thenE (py_index xss a) (\<lambda>i. Inr (xss ! i))"

text \<open>\<^verbatim>\<open>xs[-1:]\<close>: the last element as a list, the empty list for an empty list.\<close>

definition last_slice :: "'a list \<Rightarrow> 'a list" where
  "last_slice xs = drop (length xs - 1) xs"

text \<open>\<^verbatim>\<open>xss[a].pop()\<close>: the element removed and the outer list after the removal.\<close>

definition pop_at :: "'a list list \<Rightarrow> int \<Rightarrow> error + 'a \<times> 'a list list" where
  "pop_at xss a =
     thenE (py_index xss a) (\<lambda>i.
       if xss ! i = [] then Inl IndexError
       else Inr (last (xss ! i), xss[i := butlast (xss ! i)]))"

text \<open>\<^verbatim>\<open>torch.stack\<close> refuses an empty list.\<close>

definition torch_stack :: "'a list \<Rightarrow> error + 'a list" where
  "torch_stack xs = (if xs = [] then Inl RuntimeError else Inr xs)"

text \<open>\<^verbatim>\<open>range(0, n, step)\<close>: a zero step raises, a negative step gives no index.\<close>

definition range_step :: "nat \<Rightarrow> int \<Rightarrow> error + nat list" where
  "range_step n step =
     (if step = 0 then Inl ValueError
      else if step < 0 then Inr []
      else Inr (map (\<lambda>k. k * nat step) [0..<(n + nat step - 1) div nat step]))"

section \<open>Tensors\<close>

text \<open>
  A tensor of rank one is a list (\<open>Vec\<close>), one of rank two a list of rows (\<open>Mat\<close>).
  The value estimates handed to the advantage estimator are either a plain sequence
  (\<open>Flat\<close>, shape \<open>(n)\<close>) or what the critic network returns for a batch of \<open>n\<close>
  states (\<open>Column\<close>, shape \<open>(n, 1)\<close>): \<^verbatim>\<open>evaluate\<close> returns
  \<^verbatim>\<open>self.critic_network(state)\<close> as it is, and \<^verbatim>\<open>update\<close> passes it on detached.
  Indexing a column gives a tensor of shape \<open>(1)\<close>, which the arithmetic of the loops
  and the assignment into a slot of a rank-one tensor treat as the number it holds.
\<close>

datatype 'a tensor = Vec "'a list" | Mat "'a list list"

datatype estimates = Flat "real list" | Column "real list"

fun entries :: "estimates \<Rightarrow> real list" where
  "entries (Flat vs) = vs"
| "entries (Column vs) = vs"

text \<open>
  Subtraction of two rank-one tensors, with the broadcasting rule of the tensor library:
  equal lengths, or one operand of length one; anything else raises.
\<close>

definition tensor_sub :: "real list \<Rightarrow> real list \<Rightarrow> error + real list" where
  "tensor_sub xs ys =
     (if length xs = length ys then Inr (map2 (\<lambda>x y. x - y) xs ys)
      else if length ys = 1 then Inr (map (\<lambda>x. x - hd ys) xs)
      else if length xs = 1 then Inr (map (\<lambda>y. hd xs - y) ys)
      else Inl RuntimeError)"

text \<open>
  \<^verbatim>\<open>returns - state_estimated_value[:-1]\<close>.  Against a column of shape \<open>(m, 1)\<close> a
  rank-one tensor of shape \<open>(n)\<close> broadcasts to the matrix of shape \<open>(m, n)\<close> whose entry
  \<open>(i, j)\<close> is \<open>returns[j] - value[i]\<close>.
\<close>

fun minus_baseline :: "real list \<Rightarrow> estimates \<Rightarrow> error + real tensor" where
  "minus_baseline returns (Flat vs) = thenE (tensor_sub returns (butlast vs)) (\<lambda>d. Inr (Vec d))"
| "minus_baseline returns (Column vs) =
     Inr (Mat (map (\<lambda>v. map (\<lambda>r. r - v) returns) (butlast vs)))"

text \<open>A tensor entry that may be not-a-number.\<close>

datatype fl = NaN | Fin real

text \<open>
  \<^verbatim>\<open>torch.mean\<close> and \<^verbatim>\<open>torch.std\<close> over all entries.  The deviation is the sample
  deviation (Bessel's correction, the library's default): the sum of squares is divided by
  \<open>n - 1\<close>, which for fewer than two entries is a division of zero by zero.
\<close>

definition torch_mean :: "real list \<Rightarrow> fl" where
  "torch_mean xs = (if xs = [] then NaN else Fin (sum_list xs / real (length xs)))"

definition torch_std :: "real list \<Rightarrow> fl" where
  "torch_std xs =
     (if length xs \<le> 1 then NaN
      else Fin (sqrt (sum_list (map (\<lambda>x. (x - sum_list xs / real (length xs))\<^sup>2) xs)
                      / real (length xs - 1))))"

text \<open>
  \<^verbatim>\<open>(advantage - torch.mean(advantage)) / (torch.std(advantage) + 1e-10)\<close>: the
  statistics are those of all entries \<open>every\<close>; a not-a-number statistic makes every
  entry not-a-number.  The deviation is never negative, so the divisor is never zero.
\<close>

definition normalise :: "real list \<Rightarrow> real list \<Rightarrow> fl list" where
  "normalise every xs =
     (case (torch_mean every, torch_std every) of
        (Fin m, Fin s) \<Rightarrow> map (\<lambda>x. Fin ((x - m) / (s + 1 / 10 ^ 10))) xs
      | _ \<Rightarrow> map (\<lambda>x. NaN) xs)"

definition standardize :: "real list \<Rightarrow> fl list" where
  "standardize advantage = normalise advantage advantage"

fun standardize_tensor :: "real tensor \<Rightarrow> fl tensor" where
  "standardize_tensor (Vec xs) = Vec (standardize xs)"
| "standardize_tensor (Mat rows) = Mat (map (normalise (concat rows)) rows)"

section \<open>The experience buffer: class \<^verbatim>\<open>Memory\<close>\<close>

text \<open>
  Six lists of per-agent lists.  A state is a vector of reals, an action an index, a mask a
  vector of booleans.
\<close>

record Memory =
  num_agents :: int
  actions :: "nat list list"
  states :: "real list list list"
  logs_of_action_prob :: "real list list"
  masks :: "bool list list list"
  rewards :: "real list list"
  dones :: "bool list list"

definition Memory_init :: "int \<Rightarrow> Memory" where
  "Memory_init n =
     \<lparr>num_agents = n,
      actions = replicate (nat n) [],
      states = replicate (nat n) [],
      logs_of_action_prob = replicate (nat n) [],
      masks = replicate (nat n) [],
      rewards = replicate (nat n) [],
      dones = replicate (nat n) []\<rparr>"

definition clear_memory :: "Memory \<Rightarrow> Memory" where
  "clear_memory self = Memory_init (num_agents self)"

text \<open>One statement \<^verbatim>\<open>xss[agent] = xss[agent][-1:]\<close>.\<close>

definition keep_last :: "'a list list \<Rightarrow> int \<Rightarrow> error + 'a list list" where
  "keep_last xss agent = thenE (py_index xss agent) (\<lambda>i. Inr (xss[i := last_slice (xss ! i)]))"

definition clear_memory_except_last :: "Memory \<Rightarrow> int \<Rightarrow> error + Memory" where
  "clear_memory_except_last self agent =
     thenE (keep_last (actions self) agent) (\<lambda>xs. let self = self\<lparr>actions := xs\<rparr> in
     thenE (keep_last (states self) agent) (\<lambda>xs. let self = self\<lparr>states := xs\<rparr> in
     thenE (keep_last (logs_of_action_prob self) agent) (\<lambda>xs.
       let self = self\<lparr>logs_of_action_prob := xs\<rparr> in
     thenE (keep_last (masks self) agent) (\<lambda>xs. let self = self\<lparr>masks := xs\<rparr> in
     thenE (keep_last (rewards self) agent) (\<lambda>xs. let self = self\<lparr>rewards := xs\<rparr> in
     thenE (keep_last (dones self) agent) (\<lambda>xs. Inr (self\<lparr>dones := xs\<rparr>)))))))"

text \<open>What the constructor establishes: every outer list has one entry per agent.\<close>

definition wf_Memory :: "Memory \<Rightarrow> bool" where
  "wf_Memory m \<longleftrightarrow>
     length (actions m) = nat (num_agents m) \<and> length (states m) = nat (num_agents m) \<and>
     length (logs_of_action_prob m) = nat (num_agents m) \<and>
     length (masks m) = nat (num_agents m) \<and> length (rewards m) = nat (num_agents m) \<and>
     length (dones m) = nat (num_agents m)"

section \<open>The policy: class \<^verbatim>\<open>PsPPOPolicy\<close>\<close>

text \<open>
  A network is the ordered dictionary \<^verbatim>\<open>_build_network\<close> fills, from layer names to
  layers.  The parameters of the layers (weights and biases, held by the tensor library)
  are the component \<open>params\<close> of type \<open>'p\<close>.
\<close>

datatype layer = Linear int int | ReLU | Tanh

type_synonym network = "(string \<times> layer) list"

record 'p PsPPOPolicy =
  state_size :: int
  action_size :: int
  activation :: string
  critic_network :: network
  actor_network :: network
  params :: 'p

record train_params =
  shared :: bool
  critic_mlp_width :: int
  critic_mlp_depth :: int
  last_critic_layer_scaling :: real
  actor_mlp_width :: int
  actor_mlp_depth :: int
  last_actor_layer_scaling :: real
  activation :: string
  load_model_path :: "string option"

text \<open>\<^verbatim>\<open>d[key] = v\<close> on an ordered dictionary: in place for a known key, else at the end.\<close>

fun od_set :: "('k \<times> 'v) list \<Rightarrow> 'k \<Rightarrow> 'v \<Rightarrow> ('k \<times> 'v) list" where
  "od_set [] k v = [(k, v)]"
| "od_set (p # ps) k v = (if fst p = k then (k, v) # ps else p # od_set ps k v)"

text \<open>The decimal digits \<^verbatim>\<open>%d\<close> prints for a number that is not negative.\<close>

fun string_of_nat :: "nat \<Rightarrow> string" where
  "string_of_nat n =
     (if n < 10 then [''0123456789'' ! n]
      else string_of_nat (n div 10) @ [''0123456789'' ! (n mod 10)])"

declare string_of_nat.simps [simp del]

text \<open>
  \<^verbatim>\<open>_get_activation\<close> (the name is printed before the exception is raised; the model
  keeps no record of the output).
\<close>

definition get_activation :: "string \<Rightarrow> error + layer" where
  "get_activation name =
     (if name = ''ReLU'' then Inr ReLU
      else if name = ''Tanh'' then Inr Tanh
      else Inl (PyException
             ''The specified activation function don't exists or is not available''))"

text \<open>
  \<^verbatim>\<open>nn.Linear(n_in, n_out)\<close> allocates a weight of shape \<open>(n_out, n_in)\<close> and a bias of
  shape \<open>(n_out)\<close>: the tensor library raises for a negative size.
\<close>

definition nn_Linear :: "int \<Rightarrow> int \<Rightarrow> error + layer" where
  "nn_Linear n_in n_out =
     (if n_in < 0 \<or> n_out < 0 then Inl RuntimeError else Inr (Linear n_in n_out))"

text \<open>One iteration of the loop \<^verbatim>\<open>for layer in range(1, nn_depth)\<close>.\<close>

definition add_layer ::
  "string \<Rightarrow> string \<Rightarrow> int \<Rightarrow> int \<Rightarrow> int \<Rightarrow> nat \<Rightarrow> network \<Rightarrow> error + network" where
  "add_layer act nn_type nn_depth nn_width output_size layer net =
     (let layer_name = nn_type @ ''_layer_'' @ string_of_nat layer in
      if int layer = nn_depth - 1 then
        thenE (nn_Linear nn_width output_size) (\<lambda>lin. Inr (od_set net layer_name lin))
      else
        thenE (nn_Linear nn_width nn_width) (\<lambda>lin.
          let net = od_set net layer_name lin in
          thenE (get_activation act) (\<lambda>a.
            Inr (od_set net (layer_name @ ''_activation('' @ act @ '')'') a))))"

definition build_network ::
  "int \<Rightarrow> int \<Rightarrow> string \<Rightarrow> bool \<Rightarrow> int \<Rightarrow> int \<Rightarrow> error + network" where
  "build_network n_state n_action act is_actor nn_depth nn_width =
     (if nn_depth \<le> 0 then Inl (PyException ''Networks' depths must be greater than 0'')
      else
        let output_size = (if is_actor then n_action else 1);
            nn_type = (if is_actor then ''actor'' else ''critic'')
        in
        thenE (nn_Linear n_state (if nn_depth > 1 then nn_width else output_size)) (\<lambda>lin.
        let net = od_set [] (nn_type @ ''_input'') lin in
        thenE (if nn_depth > 1
               then thenE (get_activation act) (\<lambda>a.
                      Inr (od_set net (nn_type @ ''_input_activation('' @ act @ '')'') a))
               else Inr net) (\<lambda>net.
        foldE (add_layer act nn_type nn_depth nn_width output_size) [1..<nat nn_depth] net)))"

text \<open>
  The network creation of \<^verbatim>\<open>PsPPOPolicy.__init__\<close>: the critic first; then either an
  actor of its own, or (shared mode) the critic's layers with the last one replaced.
\<close>

definition create_networks :: "int \<Rightarrow> int \<Rightarrow> train_params \<Rightarrow> error + network \<times> network" where
  "create_networks n_state n_action tp =
     thenE (build_network n_state n_action (train_params.activation tp) False
              (critic_mlp_depth tp) (critic_mlp_width tp)) (\<lambda>critic_layers.
       if \<not> shared tp then
         thenE (build_network n_state n_action (train_params.activation tp) True
                  (actor_mlp_depth tp) (actor_mlp_width tp)) (\<lambda>actor_layers.
           Inr (critic_layers, actor_layers))
       else if critic_mlp_depth tp \<le> 1 then
         Inl (PyException ''Shared networks must have depth greater than 1'')
       else
         thenE (nn_Linear (critic_mlp_width tp) n_action) (\<lambda>lin.
           Inr (critic_layers, od_set (butlast critic_layers) ''actor_output_layer'' lin)))"

text \<open>
  \<^verbatim>\<open>load\<close>.  The file system is a partial map from paths to file contents
  (\<^verbatim>\<open>os.path.exists\<close> is definedness); \<open>load_state_dict\<close> stands for
  \<^verbatim>\<open>self.load_state_dict(torch.load(path))\<close>, which gives the new parameters or raises
  inside the tensor library (\<open>None\<close>).  The result carries the lines printed.
\<close>

definition load ::
  "('p \<Rightarrow> 'f \<Rightarrow> 'p option) \<Rightarrow> (string \<rightharpoonup> 'f) \<Rightarrow> 'p PsPPOPolicy \<Rightarrow> string
     \<Rightarrow> error + 'p PsPPOPolicy \<times> string list" where
  "load load_state_dict files self path =
     (case files path of
        Some content \<Rightarrow>
          (case load_state_dict (params self) content of
             Some p \<Rightarrow> Inr (self\<lparr>params := p\<rparr>, [])
           | None \<Rightarrow> Inl RuntimeError)
      | None \<Rightarrow> Inr (self, [''Loading file failed. File not found.'']))"

text \<open>
  \<^verbatim>\<open>PsPPOPolicy.__init__\<close>.  \<open>init_params\<close> stands for the orthogonal initialisation and
  the rescaling of the two last layers, which draw the initial parameters of the networks
  created.
\<close>

definition PsPPOPolicy_init ::
  "(network \<Rightarrow> network \<Rightarrow> train_params \<Rightarrow> 'p) \<Rightarrow> ('p \<Rightarrow> 'f \<Rightarrow> 'p option) \<Rightarrow> (string \<rightharpoonup> 'f)
     \<Rightarrow> int \<Rightarrow> int \<Rightarrow> train_params \<Rightarrow> error + 'p PsPPOPolicy \<times> string list" where
  "PsPPOPolicy_init init_params load_state_dict files n_state n_action tp =
     thenE (create_networks n_state n_action tp) (\<lambda>(critic, actor).
       let self = \<lparr>state_size = n_state, action_size = n_action,
                   activation = train_params.activation tp,
                   critic_network = critic, actor_network = actor,
                   params = init_params critic actor tp\<rparr>
       in case load_model_path tp of
            None \<Rightarrow> Inr (self, [])
          | Some path \<Rightarrow> load load_state_dict files self path)"

section \<open>The trainer: class \<^verbatim>\<open>PsPPO\<close>\<close>

text \<open>The attributes \<^verbatim>\<open>_get_advs\<close> and \<^verbatim>\<open>update\<close> read or write.\<close>

record ('p, 'o) PsPPO =
  discount_factor :: real
  lmbda :: real
  epochs :: int
  batch_size :: int
  eps_clip :: real
  max_grad_norm :: "real option"
  value_loss_coefficient :: real
  entropy_coefficient :: real
  gae :: bool
  policy :: "'p PsPPOPolicy"
  optimizer :: 'o
  policy_old :: "'p PsPPOPolicy"
  loss :: fl

subsection \<open>Advantage estimation: \<^verbatim>\<open>_get_advs\<close>\<close>

text \<open>\<^verbatim>\<open>not_dones = 1 - torch.tensor(dones, dtype=torch.int)\<close>\<close>

definition not_done :: "bool \<Rightarrow> real" where
  "not_done d = 1 - (if d then 1 else 0)"

text \<open>
  One iteration of the GAE loop at index \<open>t\<close>; the loop state is the pair
  \<open>(gaes, future_gae)\<close>.
\<close>

definition gae_body ::
  "real \<Rightarrow> real \<Rightarrow> real list \<Rightarrow> real list \<Rightarrow> real list \<Rightarrow> nat \<Rightarrow> real list \<times> real
     \<Rightarrow> error + real list \<times> real" where
  "gae_body g l rs nds vs t st =
     thenE (tensor_get rs t) (\<lambda>r.
     thenE (tensor_get vs (t + 1)) (\<lambda>v1.
     thenE (tensor_get nds t) (\<lambda>nd.
     thenE (tensor_get vs t) (\<lambda>v0.
       let delta = r + g * v1 * nd - v0;
           future_gae = delta + g * l * nd * snd st
       in Inr ((fst st)[t := future_gae], future_gae)))))"

text \<open>One iteration of the n-step loop; the loop state is \<open>(returns, future_ret)\<close>.\<close>

definition ret_body ::
  "real \<Rightarrow> real list \<Rightarrow> real list \<Rightarrow> nat \<Rightarrow> real list \<times> real \<Rightarrow> error + real list \<times> real" where
  "ret_body g rs nds t st =
     thenE (tensor_get rs t) (\<lambda>r.
     thenE (tensor_get nds t) (\<lambda>nd.
       let future_ret = r + g * snd st * nd
       in Inr ((fst st)[t := future_ret], future_ret)))"

definition get_advs ::
  "('p, 'o) PsPPO \<Rightarrow> real list \<Rightarrow> bool list \<Rightarrow> estimates \<Rightarrow> error + real tensor" where
  "get_advs self rs ds state_estimated_value =
     (let not_dones = map not_done ds in
      if gae self then
        if length rs + 1 \<noteq> length (entries state_estimated_value) then Inl AssertionError
        else
          thenE (foldE (gae_body (discount_factor self) (lmbda self) rs not_dones
                          (entries state_estimated_value))
                   (rev [0..<length rs]) (replicate (length rs) 0, 0))
            (\<lambda>st. Inr (Vec (fst st)))
      else
        thenE (tensor_last (entries state_estimated_value)) (\<lambda>future_ret.
        thenE (foldE (ret_body (discount_factor self) rs not_dones)
                 (rev [0..<length rs]) (replicate (length rs) 0, future_ret))
          (\<lambda>st. minus_baseline (fst st) state_estimated_value)))"

subsection \<open>The update: \<^verbatim>\<open>update\<close>\<close>

text \<open>
  What \<^verbatim>\<open>update\<close> hands to the tensor library in one mini-batch, and the operations of
  the library it relies on: the log-probability of an action and the entropy of the masked
  action distribution of the actor network, the critic network's value of a state, and the
  gradient step (the loss of the mini-batch, its gradient, the clipping of the gradient's
  norm and \<^verbatim>\<open>optimizer.step()\<close>), which gives the new parameters of
  \<^verbatim>\<open>self.policy\<close>, the new optimizer state and the loss, or raises (\<open>None\<close>).
\<close>

record batch =
  batch_states :: "real list list"
  batch_actions :: "nat list"
  batch_masks :: "bool list list"
  batch_old_logs :: "real list"
  batch_advantage :: "fl tensor"
  batch_rewards :: "real list"

record ('p, 'o) torch =
  actor_log_prob :: "'p PsPPOPolicy \<Rightarrow> real list \<Rightarrow> bool list \<Rightarrow> nat \<Rightarrow> real"
  actor_entropy :: "'p PsPPOPolicy \<Rightarrow> real list \<Rightarrow> bool list \<Rightarrow> real"
  critic_value :: "'p PsPPOPolicy \<Rightarrow> real list \<Rightarrow> real"
  gradient_step :: "('p, 'o) PsPPO \<Rightarrow> batch \<Rightarrow> ('p \<times> 'o \<times> fl) option"

text \<open>
  \<^verbatim>\<open>PsPPOPolicy.evaluate\<close>: log-probabilities and entropies for all states but the last,
  values for all states, the values as the column the critic returns.
\<close>

definition evaluate ::
  "('p, 'o) torch \<Rightarrow> 'p PsPPOPolicy \<Rightarrow> real list list \<Rightarrow> nat list \<Rightarrow> bool list list
     \<Rightarrow> real list \<times> estimates \<times> real list" where
  "evaluate T self state action action_mask =
     (map (\<lambda>(s, m, a). actor_log_prob T self s m a)
        (zip (butlast state) (zip (butlast action_mask) (butlast action))),
      Column (map (critic_value T self) state),
      map (\<lambda>(s, m). actor_entropy T self s m) (zip (butlast state) (butlast action_mask)))"

text \<open>
  The learning window: what \<^verbatim>\<open>update\<close> takes out of the buffer before the loops.  The
  last transition is popped from each of the six sequences of agent \<open>a\<close>; the stacked rest
  of the states, actions, masks and log-probabilities are the frozen references, and the
  rest of the rewards and done flags is read by every mini-batch.
\<close>

record window =
  last_state :: "real list"
  last_action :: nat
  last_mask :: "bool list"
  old_states :: "real list list"
  old_actions :: "nat list"
  old_masks :: "bool list list"
  old_logs_of_action_prob :: "real list"
  window_rewards :: "real list"
  window_dones :: "bool list"

definition take_window :: "Memory \<Rightarrow> int \<Rightarrow> error + window \<times> Memory" where
  "take_window memory a =
     thenE (pop_at (rewards memory) a) (\<lambda>(r, rewards').
     thenE (pop_at (dones memory) a) (\<lambda>(d, dones').
     thenE (pop_at (states memory) a) (\<lambda>(s, states').
     thenE (pop_at (actions memory) a) (\<lambda>(act, actions').
     thenE (pop_at (masks memory) a) (\<lambda>(m, masks').
     thenE (pop_at (logs_of_action_prob memory) a) (\<lambda>(l, logs').
     thenE (thenE (item_at states' a) torch_stack) (\<lambda>sts.
     thenE (thenE (item_at actions' a) torch_stack) (\<lambda>acts.
     thenE (thenE (item_at masks' a) torch_stack) (\<lambda>msks.
     thenE (thenE (item_at logs' a) torch_stack) (\<lambda>lgs.
     thenE (item_at rewards' a) (\<lambda>rws.
     thenE (item_at dones' a) (\<lambda>dns.
       Inr (\<lparr>last_state = s, last_action = act, last_mask = m,
             old_states = sts, old_actions = acts, old_masks = msks,
             old_logs_of_action_prob = lgs, window_rewards = rws, window_dones = dns\<rparr>,
            memory\<lparr>actions := actions', states := states', logs_of_action_prob := logs',
                    masks := masks', rewards := rewards', dones := dones'\<rparr>)))))))))))))"

text \<open>
  The states, actions and masks a mini-batch evaluates: the last mini-batch of the window
  appends the popped transition, every other one reads one position past its end.
\<close>

definition batch_inputs ::
  "window \<Rightarrow> nat \<Rightarrow> nat \<Rightarrow> real list list \<times> nat list \<times> bool list list" where
  "batch_inputs w batch_start batch_end =
     (if batch_end \<ge> length (old_states w) then
        (slice (old_states w) batch_start batch_end @ [last_state w],
         slice (old_actions w) batch_start batch_end @ [last_action w],
         slice (old_masks w) batch_start batch_end @ [last_mask w])
      else
        (slice (old_states w) batch_start (batch_end + 1),
         slice (old_actions w) batch_start (batch_end + 1),
         slice (old_masks w) batch_start (batch_end + 1)))"

text \<open>
  The body of the inner loop, for the mini-batch that starts at \<open>batch_start\<close>; \<open>bsz\<close> is
  the local \<^verbatim>\<open>batch_size\<close>, positive whenever the body runs.
\<close>

definition minibatch ::
  "('p, 'o) torch \<Rightarrow> window \<Rightarrow> nat \<Rightarrow> nat \<Rightarrow> ('p, 'o) PsPPO \<Rightarrow> error + ('p, 'o) PsPPO" where
  "minibatch T w bsz batch_start self =
     (let batch_end = batch_start + bsz in
      case batch_inputs w batch_start batch_end of (sts, acts, msks) \<Rightarrow>
      case evaluate T (policy self) sts acts msks of
        (log_of_action_prob, state_estimated_value, dist_entropy) \<Rightarrow>
      thenE (tensor_sub log_of_action_prob
               (slice (old_logs_of_action_prob w) batch_start batch_end)) (\<lambda>log_ratio.
      thenE (get_advs self (slice (window_rewards w) batch_start batch_end)
               (slice (window_dones w) batch_start batch_end) state_estimated_value) (\<lambda>advantage.
        case gradient_step T self
               \<lparr>batch_states = sts, batch_actions = acts, batch_masks = msks,
                batch_old_logs = slice (old_logs_of_action_prob w) batch_start batch_end,
                batch_advantage = standardize_tensor advantage,
                batch_rewards = slice (window_rewards w) batch_start batch_end\<rparr> of
          None \<Rightarrow> Inl RuntimeError
        | Some (p, opt, l) \<Rightarrow>
            Inr (self\<lparr>policy := (policy self)\<lparr>params := p\<rparr>, optimizer := opt, loss := l\<rparr>))))"

text \<open>One pass of the outer loop, and the outer loop over \<^verbatim>\<open>range(epochs)\<close>.\<close>

definition epoch ::
  "('p, 'o) torch \<Rightarrow> window \<Rightarrow> int \<Rightarrow> ('p, 'o) PsPPO \<Rightarrow> error + ('p, 'o) PsPPO" where
  "epoch T w bsz self =
     thenE (range_step (length (old_states w)) bsz) (\<lambda>starts.
       foldE (minibatch T w (nat bsz)) starts self)"

definition optimize ::
  "('p, 'o) torch \<Rightarrow> window \<Rightarrow> ('p, 'o) PsPPO \<Rightarrow> error + ('p, 'o) PsPPO" where
  "optimize T w self =
     foldE (\<lambda>e. epoch T w (batch_size self)) [0..<nat (epochs self)] self"

text \<open>
  \<^verbatim>\<open>update\<close>: the window is taken, the loops run, and the last statement copies the
  parameters of \<^verbatim>\<open>self.policy\<close> into \<^verbatim>\<open>self.policy_old\<close>.
\<close>

definition update ::
  "('p, 'o) torch \<Rightarrow> ('p, 'o) PsPPO \<Rightarrow> Memory \<Rightarrow> int \<Rightarrow> error + ('p, 'o) PsPPO \<times> Memory" where
  "update T self memory a =
     thenE (take_window memory a) (\<lambda>(w, memory').
     thenE (optimize T w self) (\<lambda>s.
       Inr (s\<lparr>policy_old := (policy_old s)\<lparr>params := params (policy s)\<rparr>\<rparr>, memory')))"

text \<open>
  The trainer as it stands inside the loops of \<^verbatim>\<open>update\<close>, after \<open>e\<close> full passes of the
  outer loop and the first \<open>k\<close> mini-batches of the next pass.
\<close>

definition state_at ::
  "('p, 'o) torch \<Rightarrow> window \<Rightarrow> ('p, 'o) PsPPO \<Rightarrow> nat \<Rightarrow> nat \<Rightarrow> error + ('p, 'o) PsPPO" where
  "state_at T w self e k =
     thenE (foldE (\<lambda>e. epoch T w (batch_size self)) [0..<e] self) (\<lambda>s.
     thenE (range_step (length (old_states w)) (batch_size self)) (\<lambda>starts.
       foldE (minibatch T w (nat (batch_size self))) (take k starts) s))"

section \<open>The recursions of the specification\<close>

text \<open>
  \<open>A\<^sub>t = \<delta>\<^sub>t + \<gamma>\<lambda>(1 - done\<^sub>t) A\<^sub>t\<^sub>+\<^sub>1\<close> with \<open>A\<^sub>T = 0\<close> and
  \<open>\<delta>\<^sub>t = r\<^sub>t + \<gamma> V\<^sub>t\<^sub>+\<^sub>1 (1 - done\<^sub>t) - V\<^sub>t\<close>;
  \<open>G\<^sub>t = r\<^sub>t + \<gamma>(1 - done\<^sub>t) G\<^sub>t\<^sub>+\<^sub>1\<close> with \<open>G\<^sub>T = V\<^sub>T\<close>.  They describe
  what the two loops of \<^verbatim>\<open>_get_advs\<close> compute.
\<close>

definition td_delta :: "real \<Rightarrow> real list \<Rightarrow> bool list \<Rightarrow> real list \<Rightarrow> nat \<Rightarrow> real" where
  "td_delta g rs ds vs t = rs ! t + g * vs ! (t + 1) * (1 - of_bool (ds ! t)) - vs ! t"

function spec_gae :: "real \<Rightarrow> real \<Rightarrow> real list \<Rightarrow> bool list \<Rightarrow> real list \<Rightarrow> nat \<Rightarrow> real" where
  "spec_gae g l rs ds vs t =
     (if t < length rs
      then td_delta g rs ds vs t + g * l * (1 - of_bool (ds ! t)) * spec_gae g l rs ds vs (Suc t)
      else 0)"
  by pat_completeness auto
termination
  by (relation "measure (\<lambda>(g, l, rs, ds, vs, t). length rs - t)") auto

function spec_return :: "real \<Rightarrow> real list \<Rightarrow> bool list \<Rightarrow> real list \<Rightarrow> nat \<Rightarrow> real" where
  "spec_return g rs ds vs t =
     (if t < length rs
      then rs ! t + g * (1 - of_bool (ds ! t)) * spec_return g rs ds vs (Suc t)
      else vs ! length rs)"
  by pat_completeness auto
termination
  by (relation "measure (\<lambda>(g, rs, ds, vs, t). length rs - t)") auto

declare spec_gae.simps [simp del] spec_return.simps [simp del]

section \<open>Concrete objects used in the examples\<close>

definition example_policy :: "unit PsPPOPolicy" where
  "example_policy =
     \<lparr>state_size = 2, action_size = 5, activation = ''Tanh'',
      critic_network = [(''critic_input'', Linear 2 1)],
      actor_network = [(''actor_input'', Linear 2 5)], params = ()\<rparr>"

definition example_ppo :: "bool \<Rightarrow> real \<Rightarrow> (unit, unit) PsPPO" where
  "example_ppo g l =
     \<lparr>discount_factor = 99 / 100, lmbda = l, epochs = 4, batch_size = 64,
      eps_clip = 1 / 4, max_grad_norm = Some (1 / 2), value_loss_coefficient = 1 / 1000,
      entropy_coefficient = 1 / 10, gae = g,
      policy = example_policy, optimizer = (), policy_old = example_policy, loss = Fin 0\<rparr>"


definition example_memory :: Memory where
  "example_memory =
     \<lparr>num_agents = 2,
      actions = [[2], [1, 0, 4]],
      states = [[[0, 0]], [[1, 1], [2, 1], [3, 1]]],
      logs_of_action_prob = [[- 1], [- 2, - 3, - 1 / 2]],
      masks = [[[True, True]], [[True, False], [False, True], [True, True]]],
      rewards = [[0], [1, 0, - 1]],
      dones = [[False], [False, False, True]]\<rparr>"

definition unit_params :: "network \<Rightarrow> network \<Rightarrow> train_params \<Rightarrow> unit" where
  "unit_params critic actor tp = ()"

definition unit_state_dict :: "unit \<Rightarrow> unit \<Rightarrow> unit option" where
  "unit_state_dict p content = Some content"

definition no_files :: "string \<rightharpoonup> unit" where
  "no_files = Map.empty"

definition example_params :: "bool \<Rightarrow> int \<Rightarrow> int \<Rightarrow> string \<Rightarrow> train_params" where
  "example_params sh critic_depth actor_depth act =
     \<lparr>shared = sh, critic_mlp_width = 256, critic_mlp_depth = critic_depth,
      last_critic_layer_scaling = 1 / 10, actor_mlp_width = 128, actor_mlp_depth = actor_depth,
      last_actor_layer_scaling = 1 / 100, activation = act,
      load_model_path = Some ''checkpoint.pt''\<rparr>"

text \<open>
  The value estimates the mini-batch starting at \<open>batch_start\<close> hands to
  \<^verbatim>\<open>_get_advs\<close>: the second component of what \<^verbatim>\<open>evaluate\<close> returns in \<open>minibatch\<close>.
\<close>

definition batch_values ::
  "('p, 'o) torch \<Rightarrow> window \<Rightarrow> nat \<Rightarrow> nat \<Rightarrow> ('p, 'o) PsPPO \<Rightarrow> estimates" where
  "batch_values T w bsz batch_start self =
     (case batch_inputs w batch_start (batch_start + bsz) of (sts, acts, msks) \<Rightarrow>
      case evaluate T (policy self) sts acts msks of
        (log_of_action_prob, state_estimated_value, dist_entropy) \<Rightarrow> state_estimated_value)"

definition counting_policy :: "nat \<Rightarrow> nat PsPPOPolicy" where
  "counting_policy k =
     \<lparr>state_size = 2, action_size = 5, activation = ''Tanh'',
      critic_network = [(''critic_input'', Linear 2 1)],
      actor_network = [(''actor_input'', Linear 2 5)], params = k\<rparr>"

definition counting_ppo :: "int \<Rightarrow> int \<Rightarrow> nat \<Rightarrow> nat \<Rightarrow> (nat, unit) PsPPO" where
  "counting_ppo n_epochs bsz k k_old =
     \<lparr>discount_factor = 99 / 100, lmbda = 95 / 100, epochs = n_epochs, batch_size = bsz,
      eps_clip = 1 / 4, max_grad_norm = Some (1 / 2), value_loss_coefficient = 1 / 1000,
      entropy_coefficient = 1 / 10, gae = True,
      policy = counting_policy k, optimizer = (), policy_old = counting_policy k_old,
      loss = Fin 0\<rparr>"

definition counting_torch :: "(nat, unit) torch" where
  "counting_torch =
     \<lparr>actor_log_prob = (\<lambda>p s m a. - 1), actor_entropy = (\<lambda>p s m. 1),
      critic_value = (\<lambda>p s. real (params p)),
      gradient_step = (\<lambda>self b. Some (Suc (params (policy self)), (), Fin 0))\<rparr>"

definition example_window :: window where
  "example_window =
     \<lparr>last_state = [3, 1], last_action = 4, last_mask = [True, True],
      old_states = [[1, 1], [2, 1]], old_actions = [1, 0],
      old_masks = [[True, False], [False, True]],
      old_logs_of_action_prob = [- 2, - 3],
      window_rewards = [1, 0], window_dones = [False, False]\<rparr>"

definition example_memory_popped :: Memory where
  "example_memory_popped =
     \<lparr>num_agents = 2,
      actions = [[2], [1, 0]],
      states = [[[0, 0]], [[1, 1], [2, 1]]],
      logs_of_action_prob = [[- 1], [- 2, - 3]],
      masks = [[[True, True]], [[True, False], [False, True]]],
      rewards = [[0], [1, 0]],
      dones = [[False], [False, False]]\<rparr>"

section \<open>Lemmas on loops\<close>

lemma foldE_append:
  "foldE f (xs @ ys) s = (case foldE f xs s of Inl e \<Rightarrow> Inl e | Inr s' \<Rightarrow> foldE f ys s')"
  by (induction xs arbitrary: s) (auto split: sum.splits)

lemma rev_upt_from: "k < T \<Longrightarrow> rev [k..<T] = rev [Suc k..<T] @ [k]"
  by (simp add: upt_conv_Cons)

lemma gae_body_ok:
  assumes "t < length rs" "length nds = length rs" "length vs = length rs + 1"
  shows "gae_body g l rs nds vs t (xs, f) =
         Inr (xs[t := rs ! t + g * vs ! (t + 1) * nds ! t - vs ! t + g * l * nds ! t * f],
              rs ! t + g * vs ! (t + 1) * nds ! t - vs ! t + g * l * nds ! t * f)"
  using assms by (simp add: gae_body_def thenE_def tensor_get_def Let_def)

lemma ret_body_ok:
  assumes "t < length rs" "length nds = length rs"
  shows "ret_body g rs nds t (xs, f) =
         Inr (xs[t := rs ! t + g * f * nds ! t], rs ! t + g * f * nds ! t)"
  using assms by (simp add: ret_body_def thenE_def tensor_get_def Let_def)

lemma not_done_of_bool: "not_done d = 1 - of_bool d"
  by (simp add: not_done_def)

lemma gae_fold:
  assumes "length ds = length rs" "length vs = length rs + 1" "k \<le> length rs"
  shows "foldE (gae_body g l rs (map not_done ds) vs) (rev [k..<length rs])
           (replicate (length rs) 0, 0)
       = Inr (map (\<lambda>t. if t < k then 0 else spec_gae g l rs ds vs t) [0..<length rs],
              spec_gae g l rs ds vs k)"
  using assms(3)
proof (induction k rule: inc_induct)
  case base
  have "spec_gae g l rs ds vs (length rs) = 0"
    by (simp add: spec_gae.simps)
  moreover have "map (\<lambda>t. if t < length rs then 0 else spec_gae g l rs ds vs t) [0..<length rs]
        = replicate (length rs) 0"
    by (rule nth_equalityI) auto
  ultimately show ?case by simp
next
  case (step n)
  let ?A = "spec_gae g l rs ds vs"
  have upd: "(map (\<lambda>t. if t < Suc n then 0 else ?A t) [0..<length rs])[n := ?A n]
           = map (\<lambda>t. if t < n then 0 else ?A t) [0..<length rs]"
    using step.hyps by (intro nth_equalityI) (auto simp: nth_list_update)
  have An: "?A n = rs ! n + g * vs ! (n + 1) * not_done (ds ! n) - vs ! n
                    + g * l * not_done (ds ! n) * ?A (Suc n)"
    using step.hyps by (subst spec_gae.simps) (simp add: td_delta_def not_done_of_bool)
  have body: "gae_body g l rs (map not_done ds) vs n
                (map (\<lambda>t. if t < Suc n then 0 else ?A t) [0..<length rs], ?A (Suc n))
            = Inr (map (\<lambda>t. if t < n then 0 else ?A t) [0..<length rs], ?A n)"
    using step.hyps assms(1,2) upd An
    by (simp add: gae_body_ok)
  show ?case
    using step.hyps step.IH body
    by (simp add: rev_upt_from foldE_append)
qed

lemma ret_fold:
  assumes "length ds = length rs" "vs \<noteq> []" "length vs = length rs + 1" "k \<le> length rs"
  shows "foldE (ret_body g rs (map not_done ds)) (rev [k..<length rs])
           (replicate (length rs) 0, last vs)
       = Inr (map (\<lambda>t. if t < k then 0 else spec_return g rs ds vs t) [0..<length rs],
              spec_return g rs ds vs k)"
  using assms(4)
proof (induction k rule: inc_induct)
  case base
  have "spec_return g rs ds vs (length rs) = last vs"
    using assms(2,3) by (simp add: spec_return.simps last_conv_nth)
  moreover have "map (\<lambda>t. if t < length rs then 0 else spec_return g rs ds vs t) [0..<length rs]
        = replicate (length rs) 0"
    by (rule nth_equalityI) auto
  ultimately show ?case by simp
next
  case (step n)
  let ?G = "spec_return g rs ds vs"
  have upd: "(map (\<lambda>t. if t < Suc n then 0 else ?G t) [0..<length rs])[n := ?G n]
           = map (\<lambda>t. if t < n then 0 else ?G t) [0..<length rs]"
    using step.hyps by (intro nth_equalityI) (auto simp: nth_list_update)
  have Gn: "?G n = rs ! n + g * ?G (Suc n) * not_done (ds ! n)"
    using step.hyps by (subst spec_return.simps) (simp add: not_done_of_bool)
  have body: "ret_body g rs (map not_done ds) n
                (map (\<lambda>t. if t < Suc n then 0 else ?G t) [0..<length rs], ?G (Suc n))
            = Inr (map (\<lambda>t. if t < n then 0 else ?G t) [0..<length rs], ?G n)"
    using step.hyps assms(1) upd Gn
    by (simp add: ret_body_ok)
  show ?case
    using step.hyps step.IH body
    by (simp add: rev_upt_from foldE_append)
qed

lemma get_advs_gae_closed:
  assumes "gae self" "length ds = length rs" "length (entries v) = length rs + 1"
  shows "get_advs self rs ds v =
         Inr (Vec (map (spec_gae (discount_factor self) (lmbda self) rs ds (entries v))
                     [0..<length rs]))"
  using assms gae_fold [of ds rs "entries v" 0 "discount_factor self" "lmbda self"]
  by (simp add: get_advs_def thenE_def)

lemma nstep_loop:
  assumes "length ds = length rs" "length vs = length rs + 1"
  shows "foldE (ret_body g rs (map not_done ds)) (rev [0..<length rs])
           (replicate (length rs) 0, last vs)
       = Inr (map (spec_return g rs ds vs) [0..<length rs], spec_return g rs ds vs 0)"
proof -
  have "vs \<noteq> []" using assms(2) by auto
  then show ?thesis
    using assms ret_fold [of ds rs vs 0 g] by simp
qed

lemma get_advs_nstep_flat:
  assumes "\<not> gae self" "length ds = length rs" "length vs = length rs + 1"
  shows "get_advs self rs ds (Flat vs) =
         Inr (Vec (map (\<lambda>t. spec_return (discount_factor self) rs ds vs t - vs ! t)
                     [0..<length rs]))"
proof -
  have ne: "vs \<noteq> []" using assms(3) by auto
  have sub: "tensor_sub (map (spec_return (discount_factor self) rs ds vs) [0..<length rs])
               (butlast vs)
        = Inr (map (\<lambda>t. spec_return (discount_factor self) rs ds vs t - vs ! t)
                [0..<length rs])"
    using assms(3) by (auto simp: tensor_sub_def nth_butlast intro!: nth_equalityI)
  show ?thesis
    using assms(1) ne sub nstep_loop [OF assms(2,3), of "discount_factor self"]
    by (simp add: get_advs_def thenE_def tensor_last_def)
qed

lemma get_advs_nstep_column:
  assumes "\<not> gae self" "length ds = length rs" "length vs = length rs + 1"
  shows "get_advs self rs ds (Column vs) =
         Inr (Mat (map (\<lambda>v. map (\<lambda>r. r - v)
                               (map (spec_return (discount_factor self) rs ds vs) [0..<length rs]))
                     (butlast vs)))"
proof -
  have ne: "vs \<noteq> []" using assms(3) by auto
  show ?thesis
    using assms(1) ne nstep_loop [OF assms(2,3), of "discount_factor self"]
    by (simp add: get_advs_def thenE_def tensor_last_def)
qed

lemma spec_gae_lambda_one:
  assumes "k \<le> length rs"
  shows "spec_gae g 1 rs ds vs k = spec_return g rs ds vs k - vs ! k"
  using assms
proof (induction k rule: inc_induct)
  case base
  show ?case by (simp add: spec_gae.simps spec_return.simps)
next
  case (step n)
  have "spec_gae g 1 rs ds vs n
      = td_delta g rs ds vs n + g * (1 - of_bool (ds ! n)) * spec_gae g 1 rs ds vs (Suc n)"
    using step.hyps by (subst spec_gae.simps) simp
  moreover have "spec_return g rs ds vs n
      = rs ! n + g * (1 - of_bool (ds ! n)) * spec_return g rs ds vs (Suc n)"
    using step.hyps by (subst spec_return.simps) simp
  ultimately show ?case
    using step.IH by (simp add: td_delta_def algebra_simps)
qed

lemma list2_nth: "length xs = 2 \<Longrightarrow> xs = [xs ! 0, xs ! 1]"
  by (cases xs; cases "tl xs") auto

section \<open>Claims on advantage estimation\<close>

text \<open>
  Claim C1.  In GAE mode, for \<open>T \<ge> 1\<close> rewards, \<open>T\<close> done flags and \<open>T + 1\<close> value
  estimates (a plain sequence or the critic's column), \<^verbatim>\<open>_get_advs\<close> returns, without
  raising, a sequence of length \<open>T\<close> that satisfies the backward recursion
  \<open>A\<^sub>t = \<delta>\<^sub>t + \<gamma>\<lambda>(1 - done\<^sub>t) A\<^sub>t\<^sub>+\<^sub>1\<close> with
  \<open>\<delta>\<^sub>t = r\<^sub>t + \<gamma> V\<^sub>t\<^sub>+\<^sub>1 (1 - done\<^sub>t) - V\<^sub>t\<close> and \<open>A\<^sub>T = 0\<close>; for \<open>T = 1\<close> and
  \<open>done\<^sub>0\<close> false the single advantage is \<open>r + \<gamma> V\<^sub>1 - V\<^sub>0\<close>.
\<close>

theorem get_advs_gae_recursion:
  assumes "gae self" "1 \<le> length rs" "length ds = length rs"
    and "length (entries v) = length rs + 1"
  shows "\<exists>advs. get_advs self rs ds v = Inr (Vec advs) \<and> length advs = length rs \<and>
           (\<forall>t<length rs.
              advs ! t =
                (rs ! t + discount_factor self * entries v ! (t + 1) * (1 - of_bool (ds ! t))
                   - entries v ! t)
                + discount_factor self * lmbda self * (1 - of_bool (ds ! t))
                  * (if Suc t < length rs then advs ! Suc t else 0)) \<and>
           (length rs = 1 \<and> \<not> ds ! 0 \<longrightarrow>
              advs = [rs ! 0 + discount_factor self * entries v ! 1 - entries v ! 0])"
proof -
  let ?A = "spec_gae (discount_factor self) (lmbda self) rs ds (entries v)"
  let ?advs = "map ?A [0..<length rs]"
  have res: "get_advs self rs ds v = Inr (Vec ?advs)"
    using assms(1,3,4) by (rule get_advs_gae_closed)
  have rec: "?advs ! t =
        (rs ! t + discount_factor self * entries v ! (t + 1) * (1 - of_bool (ds ! t))
           - entries v ! t)
        + discount_factor self * lmbda self * (1 - of_bool (ds ! t))
          * (if Suc t < length rs then ?advs ! Suc t else 0)"
    if "t < length rs" for t
  proof -
    have "?A t = td_delta (discount_factor self) rs ds (entries v) t
                 + discount_factor self * lmbda self * (1 - of_bool (ds ! t)) * ?A (Suc t)"
      using that by (subst spec_gae.simps) simp
    moreover have "?A (Suc t) = 0" if "\<not> Suc t < length rs"
      using that by (subst spec_gae.simps) simp
    ultimately show ?thesis
      using that by (simp add: td_delta_def)
  qed
  have one: "?advs = [rs ! 0 + discount_factor self * entries v ! 1 - entries v ! 0]"
    if "length rs = 1" "\<not> ds ! 0"
  proof -
    have "?advs = [?advs ! 0]"
      using that(1) by simp
    also have "?advs ! 0 = rs ! 0 + discount_factor self * entries v ! 1 - entries v ! 0"
      using rec [of 0] that by simp
    finally show ?thesis .
  qed
  show ?thesis
    using res rec one by (intro exI [of _ ?advs]) simp
qed

text \<open>
  The two-step window of the specification (rewards \<open>1, 0\<close>, done flags \<open>0, 1\<close>, values
  \<open>0.5, 0.4, 0\<close>, \<open>\<gamma> = 0.99\<close>, \<open>\<lambda> = 0.95\<close>), with the values as the column
  \<^verbatim>\<open>update\<close> passes: the recursion of C1 determines both advantages.
\<close>

theorem get_advs_gae_recursion_witness:
  "get_advs (example_ppo True (95 / 100)) [1, 0] [False, True] (Column [1 / 2, 2 / 5, 0])
     = Inr (Vec [2599 / 5000, - 2 / 5])"
proof -
  obtain advs where
    res: "get_advs (example_ppo True (95 / 100)) [1, 0] [False, True] (Column [1 / 2, 2 / 5, 0])
            = Inr (Vec advs)"
    and len: "length advs = 2"
    and rec: "\<forall>t<2. advs ! t =
                ([1, 0] ! t + 99 / 100 * [1 / 2, 2 / 5, 0] ! (t + 1) * (1 - of_bool ([False, True] ! t))
                   - [1 / 2, 2 / 5, 0::real] ! t)
                + 99 / 100 * (95 / 100) * (1 - of_bool ([False, True] ! t))
                  * (if Suc t < 2 then advs ! Suc t else 0)"
    using get_advs_gae_recursion [of "example_ppo True (95 / 100)" "[1, 0]" "[False, True]"
        "Column [1 / 2, 2 / 5, 0]"]
    by (auto simp: example_ppo_def)
  have a1: "advs ! 1 = - 2 / 5"
    using rec [rule_format, of 1] by simp
  have a0: "advs ! 0 = 2599 / 5000"
    using rec [rule_format, of 0] a1 by simp
  have "advs = [advs ! 0, advs ! 1]"
    using len by (rule list2_nth)
  then show ?thesis
    using res a0 a1 by simp
qed


text \<open>
  Claim C2.  In n-step mode \<^verbatim>\<open>_get_advs\<close> is to return the length-\<open>T\<close> sequence
  \<open>G\<^sub>t - V\<^sub>t\<close>, where \<open>G\<^sub>T = V\<^sub>T\<close> and \<open>G\<^sub>t = r\<^sub>t + \<gamma>(1 - done\<^sub>t) G\<^sub>t\<^sub>+\<^sub>1\<close>.  On the
  value estimates \<^verbatim>\<open>update\<close> passes, the critic's column of shape \<open>(T + 1, 1)\<close>, the last
  line \<^verbatim>\<open>returns - state_estimated_value[:-1]\<close> broadcasts \<open>(T)\<close> against \<open>(T, 1)\<close>: the
  result is the \<open>T \<times> T\<close> matrix of all differences \<open>G\<^sub>j - V\<^sub>i\<close>, not the sequence.  The
  two-step window of the specification in n-step mode: the returns are \<open>1, 0\<close>, the claimed
  result is \<open>0.5, -0.4\<close>, the code's result is the matrix with that diagonal.  (The value
  loss of \<^verbatim>\<open>update\<close> squeezes the column before it subtracts; this line does not.)
\<close>

theorem nstep_column_window:
  "get_advs (example_ppo False (95 / 100)) [1, 0] [False, True] (Column [1 / 2, 2 / 5, 0])
     = Inr (Mat [[1 / 2, - 1 / 2], [3 / 5, - 2 / 5]])"
proof -
  let ?G = "spec_return (99 / 100) [1, 0] [False, True] [1 / 2, 2 / 5, 0]"
  have g2: "?G (Suc (Suc 0)) = 0"
    by (subst spec_return.simps) simp
  have g1: "?G (Suc 0) = 0"
    using g2 by (subst spec_return.simps) simp
  have g0: "?G 0 = 1"
    using g1 by (subst spec_return.simps) simp
  have "get_advs (example_ppo False (95 / 100)) [1, 0] [False, True] (Column [1 / 2, 2 / 5, 0])
      = Inr (Mat (map (\<lambda>v. map (\<lambda>r. r - v) (map ?G [0..<length [1, 0::real]]))
                    (butlast [1 / 2, 2 / 5, 0])))"
    using get_advs_nstep_column [of "example_ppo False (95 / 100)" "[False, True]" "[1, 0]"
        "[1 / 2, 2 / 5, 0]"]
    by (simp add: example_ppo_def)
  then show ?thesis
    using g0 g1 by simp
qed

text \<open>
  On value estimates given as a plain sequence of length \<open>T + 1\<close> the n-step branch does
  return \<open>G\<^sub>t - V\<^sub>t\<close> for \<open>t < T\<close>.
\<close>

theorem get_advs_nstep_returns_flat:
  assumes "\<not> gae self" "1 \<le> length rs" "length ds = length rs"
    and "length vs = length rs + 1"
  shows "get_advs self rs ds (Flat vs) =
           Inr (Vec (map (\<lambda>t. spec_return (discount_factor self) rs ds vs t - vs ! t)
                  [0..<length rs]))
         \<and> spec_return (discount_factor self) rs ds vs (length rs) = vs ! length rs
         \<and> (\<forall>t<length rs.
               spec_return (discount_factor self) rs ds vs t =
                 rs ! t + discount_factor self * (1 - of_bool (ds ! t))
                   * spec_return (discount_factor self) rs ds vs (Suc t))"
proof (intro conjI allI impI)
  show "get_advs self rs ds (Flat vs) =
           Inr (Vec (map (\<lambda>t. spec_return (discount_factor self) rs ds vs t - vs ! t)
                  [0..<length rs]))"
    using assms(1,3,4) by (rule get_advs_nstep_flat)
  show "spec_return (discount_factor self) rs ds vs (length rs) = vs ! length rs"
    by (subst spec_return.simps) simp
  show "spec_return (discount_factor self) rs ds vs t =
          rs ! t + discount_factor self * (1 - of_bool (ds ! t))
            * spec_return (discount_factor self) rs ds vs (Suc t)"
    if "t < length rs" for t
    using that by (subst spec_return.simps) simp
qed

text \<open>The window of the specification, values as a plain sequence.\<close>

theorem get_advs_nstep_returns_flat_witness:
  "get_advs (example_ppo False (95 / 100)) [1, 0] [False, True] (Flat [1 / 2, 2 / 5, 0])
     = Inr (Vec [1 / 2, - 2 / 5])"
proof -
  let ?G = "spec_return (99 / 100) [1, 0] [False, True] [1 / 2, 2 / 5, 0]"
  have inst: "get_advs (example_ppo False (95 / 100)) [1, 0] [False, True] (Flat [1 / 2, 2 / 5, 0]) =
           Inr (Vec [?G 0 - 1 / 2, ?G (Suc 0) - 2 / 5])
      \<and> ?G (Suc (Suc 0)) = 0
      \<and> (\<forall>t<Suc (Suc 0).
            ?G t = [1, 0] ! t + 99 / 100 * (1 - of_bool ([False, True] ! t)) * ?G (Suc t))"
    using get_advs_nstep_returns_flat [of "example_ppo False (95 / 100)" "[1, 0]" "[False, True]"
        "[1 / 2, 2 / 5, 0]"]
    by (simp add: example_ppo_def)
  have g1: "?G (Suc 0) = 0"
    using inst by simp
  have g0: "?G 0 = 1"
    using inst g1 by simp
  show ?thesis
    using inst g0 g1 by simp
qed

text \<open>
  Claim C10.  With \<open>\<lambda> = 1\<close> the two modes of \<^verbatim>\<open>_get_advs\<close> are to return the same
  output on every window.  On the critic's column they do not: GAE mode returns the
  sequence, n-step mode the matrix of claim C2 (whose diagonal is that sequence).
\<close>

theorem modes_differ_on_column:
  "get_advs (example_ppo True 1) [1, 0] [False, True] (Column [1 / 2, 2 / 5, 0])
     = Inr (Vec [1 / 2, - 2 / 5])
   \<and> get_advs (example_ppo False 1) [1, 0] [False, True] (Column [1 / 2, 2 / 5, 0])
     = Inr (Mat [[1 / 2, - 1 / 2], [3 / 5, - 2 / 5]])"
proof
  let ?G = "spec_return (99 / 100) [1, 0] [False, True] [1 / 2, 2 / 5, 0]"
  let ?A = "spec_gae (99 / 100) 1 [1, 0] [False, True] [1 / 2, 2 / 5, 0]"
  have g2: "?G (Suc (Suc 0)) = 0"
    by (subst spec_return.simps) simp
  have g1: "?G (Suc 0) = 0"
    using g2 by (subst spec_return.simps) simp
  have g0: "?G 0 = 1"
    using g1 by (subst spec_return.simps) simp
  have a2: "?A (Suc (Suc 0)) = 0"
    by (subst spec_gae.simps) simp
  have a1: "?A (Suc 0) = - 2 / 5"
    using a2 by (subst spec_gae.simps) (simp add: td_delta_def)
  have a0: "?A 0 = 1 / 2"
    using a1 by (subst spec_gae.simps) (simp add: td_delta_def)
  have "get_advs (example_ppo True 1) [1, 0] [False, True] (Column [1 / 2, 2 / 5, 0])
      = Inr (Vec (map ?A [0..<length [1, 0::real]]))"
    using get_advs_gae_closed [of "example_ppo True 1" "[False, True]" "[1, 0]"
        "Column [1 / 2, 2 / 5, 0]"]
    by (simp add: example_ppo_def)
  then show "get_advs (example_ppo True 1) [1, 0] [False, True] (Column [1 / 2, 2 / 5, 0])
     = Inr (Vec [1 / 2, - 2 / 5])"
    using a0 a1 by simp
  have "get_advs (example_ppo False 1) [1, 0] [False, True] (Column [1 / 2, 2 / 5, 0])
      = Inr (Mat (map (\<lambda>v. map (\<lambda>r. r - v) (map ?G [0..<length [1, 0::real]]))
                    (butlast [1 / 2, 2 / 5, 0])))"
    using get_advs_nstep_column [of "example_ppo False 1" "[False, True]" "[1, 0]"
        "[1 / 2, 2 / 5, 0]"]
    by (simp add: example_ppo_def)
  then show "get_advs (example_ppo False 1) [1, 0] [False, True] (Column [1 / 2, 2 / 5, 0])
     = Inr (Mat [[1 / 2, - 1 / 2], [3 / 5, - 2 / 5]])"
    using g0 g1 by simp
qed

text \<open>
  On value estimates given as a plain sequence the two modes agree for \<open>\<lambda> = 1\<close>, in exact
  arithmetic: the GAE recursion telescopes into return minus baseline.
\<close>

theorem gae_lambda_one_is_nstep_flat:
  assumes "lmbda self = 1" "1 \<le> length rs" "length ds = length rs"
    and "length vs = length rs + 1"
  shows "get_advs (self\<lparr>gae := True\<rparr>) rs ds (Flat vs)
           = get_advs (self\<lparr>gae := False\<rparr>) rs ds (Flat vs)
         \<and> (\<exists>advs. get_advs (self\<lparr>gae := True\<rparr>) rs ds (Flat vs) = Inr (Vec advs)
                   \<and> length advs = length rs)"
proof -
  have a: "get_advs (self\<lparr>gae := True\<rparr>) rs ds (Flat vs) =
        Inr (Vec (map (spec_gae (discount_factor self) 1 rs ds vs) [0..<length rs]))"
    using assms get_advs_gae_closed [of "self\<lparr>gae := True\<rparr>" ds rs "Flat vs"] by simp
  have b: "get_advs (self\<lparr>gae := False\<rparr>) rs ds (Flat vs) =
        Inr (Vec (map (\<lambda>t. spec_return (discount_factor self) rs ds vs t - vs ! t)
               [0..<length rs]))"
    using assms get_advs_nstep_flat [of "self\<lparr>gae := False\<rparr>" ds rs vs] by simp
  have "map (spec_gae (discount_factor self) 1 rs ds vs) [0..<length rs]
      = map (\<lambda>t. spec_return (discount_factor self) rs ds vs t - vs ! t)
          [0..<length rs]"
    by (rule map_cong) (simp_all add: spec_gae_lambda_one)
  then show ?thesis
    using a b by simp
qed

text \<open>A three-step window on which both modes are run with \<open>\<lambda> = 1\<close>.\<close>

theorem gae_lambda_one_is_nstep_flat_witness:
  "get_advs (example_ppo True 1) [1, 0, 2] [False, False, False] (Flat [1 / 2, 2 / 5, 0, 1])
     = get_advs (example_ppo False 1) [1, 0, 2] [False, False, False] (Flat [1 / 2, 2 / 5, 0, 1])"
  using gae_lambda_one_is_nstep_flat [of "example_ppo False 1" "[1, 0, 2]" "[False, False, False]"
      "[1 / 2, 2 / 5, 0, 1]"]
  by (simp add: example_ppo_def)

section \<open>Lemmas on the experience buffer\<close>

lemma py_index_nonneg: "i < length xss \<Longrightarrow> py_index xss (int i) = Inr i"
  by (simp add: py_index_def)

lemma py_index_bound: "py_index xss a = Inr i \<Longrightarrow> i < length xss"
  by (auto simp: py_index_def split: if_splits)

lemma py_index_same_length:
  "py_index xss a = Inr i \<Longrightarrow> length yss = length xss \<Longrightarrow> py_index yss a = Inr i"
  by (auto simp: py_index_def split: if_splits)

lemma last_slice_nonempty: "xs \<noteq> [] \<Longrightarrow> last_slice xs = [last xs]"
  by (induction xs rule: rev_induct) (simp_all add: last_slice_def)

lemma keep_last_ok:
  "py_index xss a = Inr i \<Longrightarrow> keep_last xss a = Inr (xss[i := last_slice (xss ! i)])"
  by (simp add: keep_last_def thenE_def)

section \<open>Claims on the experience buffer\<close>

text \<open>
  Claim C4.  For an agent whose six sequences are not empty,
  \<^verbatim>\<open>clear_memory_except_last\<close> leaves in each of the six exactly one element, the one that
  was last, whatever the length before.  (\<open>i\<close> is the position the index \<open>agent\<close>
  denotes, which may be negative as in Python.)
\<close>

theorem clear_memory_except_last_keeps_last:
  assumes wf: "wf_Memory m"
    and idx: "py_index (actions m) agent = Inr i"
    and ne: "actions m ! i \<noteq> []" "states m ! i \<noteq> []" "logs_of_action_prob m ! i \<noteq> []"
      "masks m ! i \<noteq> []" "rewards m ! i \<noteq> []" "dones m ! i \<noteq> []"
  shows "\<exists>m'. clear_memory_except_last m agent = Inr m' \<and>
           actions m' ! i = [last (actions m ! i)] \<and>
           states m' ! i = [last (states m ! i)] \<and>
           logs_of_action_prob m' ! i = [last (logs_of_action_prob m ! i)] \<and>
           masks m' ! i = [last (masks m ! i)] \<and>
           rewards m' ! i = [last (rewards m ! i)] \<and>
           dones m' ! i = [last (dones m ! i)]"
proof -
  have len: "i < length (actions m)"
    using idx by (rule py_index_bound)
  have lens: "length (states m) = length (actions m)"
    "length (logs_of_action_prob m) = length (actions m)"
    "length (masks m) = length (actions m)" "length (rewards m) = length (actions m)"
    "length (dones m) = length (actions m)"
    using wf by (simp_all add: wf_Memory_def)
  have k: "keep_last (actions m) agent = Inr ((actions m)[i := last_slice (actions m ! i)])"
    "keep_last (states m) agent = Inr ((states m)[i := last_slice (states m ! i)])"
    "keep_last (logs_of_action_prob m) agent
       = Inr ((logs_of_action_prob m)[i := last_slice (logs_of_action_prob m ! i)])"
    "keep_last (masks m) agent = Inr ((masks m)[i := last_slice (masks m ! i)])"
    "keep_last (rewards m) agent = Inr ((rewards m)[i := last_slice (rewards m ! i)])"
    "keep_last (dones m) agent = Inr ((dones m)[i := last_slice (dones m ! i)])"
    using idx py_index_same_length [OF idx lens(1)] py_index_same_length [OF idx lens(2)]
      py_index_same_length [OF idx lens(3)] py_index_same_length [OF idx lens(4)]
      py_index_same_length [OF idx lens(5)]
    by (simp_all add: keep_last_ok)
  have res: "clear_memory_except_last m agent =
      Inr (m\<lparr>actions := (actions m)[i := last_slice (actions m ! i)],
             states := (states m)[i := last_slice (states m ! i)],
             logs_of_action_prob := (logs_of_action_prob m)[i := last_slice (logs_of_action_prob m ! i)],
             masks := (masks m)[i := last_slice (masks m ! i)],
             rewards := (rewards m)[i := last_slice (rewards m ! i)],
             dones := (dones m)[i := last_slice (dones m ! i)]\<rparr>)"
    by (simp add: clear_memory_except_last_def k thenE_def Let_def)
  have i: "i < length (states m)" "i < length (logs_of_action_prob m)" "i < length (masks m)"
    "i < length (rewards m)" "i < length (dones m)"
    using len lens by simp_all
  show ?thesis
    unfolding res using len i ne by (simp add: last_slice_nonempty)
qed


text \<open>A buffer of two agents, the second addressed as \<open>-1\<close>, with three transitions.\<close>

theorem clear_memory_except_last_keeps_last_witness:
  "clear_memory_except_last example_memory (- 1) =
     Inr \<lparr>num_agents = 2,
          actions = [[2], [4]],
          states = [[[0, 0]], [[3, 1]]],
          logs_of_action_prob = [[- 1], [- 1 / 2]],
          masks = [[[True, True]], [[True, True]]],
          rewards = [[0], [- 1]],
          dones = [[False], [True]]\<rparr>"
proof -
  have "\<exists>m'. clear_memory_except_last example_memory (- 1) = Inr m' \<and>
           actions m' ! 1 = [last (actions example_memory ! 1)] \<and>
           states m' ! 1 = [last (states example_memory ! 1)] \<and>
           logs_of_action_prob m' ! 1 = [last (logs_of_action_prob example_memory ! 1)] \<and>
           masks m' ! 1 = [last (masks example_memory ! 1)] \<and>
           rewards m' ! 1 = [last (rewards example_memory ! 1)] \<and>
           dones m' ! 1 = [last (dones example_memory ! 1)]"
    by (rule clear_memory_except_last_keeps_last)
      (simp_all add: example_memory_def wf_Memory_def py_index_def)
  then show ?thesis
    by (simp add: example_memory_def clear_memory_except_last_def keep_last_def thenE_def
        py_index_def last_slice_def)
qed

section \<open>Claims on loading and on standardisation\<close>

text \<open>
  Claim C8.  For a path that does not exist, \<^verbatim>\<open>load\<close> does not raise and returns the
  policy as it was, every parameter included; it only prints the failure message.
\<close>

theorem load_missing_path:
  assumes "files path = None"
  shows "load load_state_dict files self path =
           Inr (self, [''Loading file failed. File not found.''])"
  using assms by (simp add: load_def)

text \<open>An empty file system.\<close>

theorem load_missing_path_witness:
  "load (\<lambda>p c. Some c) (Map.empty :: string \<rightharpoonup> unit) example_policy ''checkpoint.pt'' =
     Inr (example_policy, [''Loading file failed. File not found.''])"
  using load_missing_path [of "Map.empty :: string \<rightharpoonup> unit" "''checkpoint.pt''" "\<lambda>p c. Some c"
      example_policy]
  by simp

text \<open>
  Claim C9.  Standardising a non-empty advantage sequence whose entries are all equal is to
  give zeros.  For a sequence of one entry the code gives not-a-number instead: the
  numerator is zero, but \<^verbatim>\<open>torch.std\<close> of a single entry divides zero by zero, and the
  epsilon is added to a not-a-number.  \<^verbatim>\<open>update\<close> standardises a sequence of one entry
  whenever the last mini-batch of the window holds one transition.
\<close>

theorem standardize_single_is_nan: "standardize [c] = [NaN]"
  by (simp add: standardize_def normalise_def torch_std_def torch_mean_def)

text \<open>The deviation is never negative: with the epsilon the divisor is positive.\<close>

lemma torch_std_nonneg:
  assumes "torch_std xs = Fin s"
  shows "0 \<le> s"
proof -
  have "0 \<le> sum_list (map (\<lambda>x. (x - sum_list xs / real (length xs))\<^sup>2) xs)"
    by (rule sum_list_nonneg) auto
  then have "0 \<le> sum_list (map (\<lambda>x. (x - sum_list xs / real (length xs))\<^sup>2) xs)
                 / real (length xs - 1)"
    by simp
  then show ?thesis
    using assms by (auto simp: torch_std_def split: if_splits)
qed

lemma sum_list_replicate_real: "sum_list (replicate n (c::real)) = real n * c"
  by (induction n) (simp_all add: algebra_simps)

text \<open>For two or more equal entries the result is zero everywhere.\<close>

theorem standardize_constant:
  assumes "2 \<le> n"
  shows "standardize (replicate n c) = replicate n (Fin 0)"
proof -
  have n: "n \<noteq> 0" "\<not> n \<le> 1" using assms by auto
  have m: "torch_mean (replicate n c) = Fin c"
    using n by (simp add: torch_mean_def sum_list_replicate_real)
  have "map (\<lambda>x. (x - sum_list (replicate n c) / real (length (replicate n c)))\<^sup>2) (replicate n c)
      = replicate n 0"
    using n by (simp add: sum_list_replicate_real)
  then have s: "torch_std (replicate n c) = Fin 0"
    using n by (simp add: torch_std_def sum_list_replicate_real)
  show ?thesis
    by (simp add: standardize_def normalise_def m s)
qed

theorem standardize_constant_witness:
  "standardize [3, 3, 3] = [Fin 0, Fin 0, Fin 0]"
  using standardize_constant [of 3 3]
  by (simp add: numeral_3_eq_3)

section \<open>Lemmas on the construction of a policy\<close>

lemma get_activation_known:
  "act = ''ReLU'' \<or> act = ''Tanh'' \<Longrightarrow> \<exists>a. get_activation act = Inr a"
  by (auto simp: get_activation_def)

lemma get_activation_unknown:
  "act \<noteq> ''ReLU'' \<Longrightarrow> act \<noteq> ''Tanh'' \<Longrightarrow>
   get_activation act =
     Inl (PyException ''The specified activation function don't exists or is not available'')"
  by (simp add: get_activation_def)

lemma foldE_total:
  assumes "\<And>x s. \<exists>s'. f x s = Inr s'"
  shows "\<exists>s'. foldE f xs s = Inr s'"
proof (induction xs arbitrary: s)
  case Nil
  show ?case by simp
next
  case (Cons x xs)
  obtain s1 where "f x s = Inr s1"
    using assms by blast
  then show ?case
    using Cons.IH [of s1] by simp
qed

lemma nn_Linear_ok: "0 \<le> n_in \<Longrightarrow> 0 \<le> n_out \<Longrightarrow> nn_Linear n_in n_out = Inr (Linear n_in n_out)"
  by (simp add: nn_Linear_def)

lemma add_layer_known:
  assumes "act = ''ReLU'' \<or> act = ''Tanh''" "0 \<le> w" "0 \<le> out"
  shows "\<exists>net'. add_layer act nn_type d w out layer net = Inr net'"
proof -
  obtain a where "get_activation act = Inr a"
    using get_activation_known [OF assms(1)] by blast
  then show ?thesis
    using assms(2,3) by (simp add: add_layer_def thenE_def Let_def nn_Linear_ok)
qed

lemma build_network_depth:
  "d \<le> 0 \<Longrightarrow> build_network ns na act is_actor d w =
     Inl (PyException ''Networks' depths must be greater than 0'')"
  by (simp add: build_network_def)

lemma build_network_one:
  assumes "0 \<le> ns" "0 \<le> na"
  shows "\<exists>net. build_network ns na act is_actor 1 w = Inr net"
  using assms by (simp add: build_network_def thenE_def Let_def nn_Linear_ok)

lemma build_network_unknown:
  assumes "1 < d" "act \<noteq> ''ReLU''" "act \<noteq> ''Tanh''" "0 \<le> ns" "0 \<le> w"
  shows "build_network ns na act is_actor d w =
     Inl (PyException ''The specified activation function don't exists or is not available'')"
  using assms
  by (simp add: build_network_def thenE_def Let_def get_activation_unknown nn_Linear_ok)

lemma build_network_known:
  assumes "0 < d" "act = ''ReLU'' \<or> act = ''Tanh''" "0 \<le> ns" "0 \<le> na" "0 \<le> w"
  shows "\<exists>net. build_network ns na act is_actor d w = Inr net"
proof -
  obtain a where a: "get_activation act = Inr a"
    using get_activation_known [OF assms(2)] by blast
  have "\<exists>net'. foldE (add_layer act nn_type d w (if is_actor then na else 1)) ls net = Inr net'"
    for nn_type ls net
    by (rule foldE_total) (rule add_layer_known, use assms in simp_all)
  then show ?thesis
    using assms a by (simp add: build_network_def thenE_def Let_def nn_Linear_ok)
qed

text \<open>
  A negative width: the first \<^verbatim>\<open>nn.Linear\<close> raises before the activation name is looked
  up, whatever the name is.
\<close>

lemma build_network_negative_width:
  "build_network 231 5 act False 2 (- 1) = Inl RuntimeError"
  by (simp add: build_network_def thenE_def Let_def nn_Linear_def)

lemma build_network_config_error:
  assumes "0 \<le> ns" "0 \<le> na" "0 \<le> w"
  shows "(\<exists>msg. build_network ns na act is_actor d w = Inl (PyException msg)) \<longleftrightarrow>
     d \<le> 0 \<or> (1 < d \<and> act \<noteq> ''ReLU'' \<and> act \<noteq> ''Tanh'')"
proof (cases "d \<le> 0")
  case True
  then show ?thesis by (simp add: build_network_depth)
next
  case pos: False
  show ?thesis
  proof (cases "act = ''ReLU'' \<or> act = ''Tanh''")
    case True
    then obtain net where "build_network ns na act is_actor d w = Inr net"
      using pos assms build_network_known [of d act ns na w is_actor] by auto
    then show ?thesis using pos True by auto
  next
    case unknown: False
    show ?thesis
    proof (cases "d = 1")
      case True
      then obtain net where "build_network ns na act is_actor d w = Inr net"
        using assms build_network_one [of ns na act is_actor w] by auto
      then show ?thesis using True by simp
    next
      case False
      then have "1 < d" using pos by simp
      then show ?thesis
        using unknown assms by (simp add: build_network_unknown)
    qed
  qed
qed

lemma build_network_total:
  assumes "0 \<le> ns" "0 \<le> na" "0 \<le> w"
    and "\<not> (d \<le> 0 \<or> (1 < d \<and> act \<noteq> ''ReLU'' \<and> act \<noteq> ''Tanh''))"
  shows "\<exists>net. build_network ns na act is_actor d w = Inr net"
  using assms build_network_one [of ns na act is_actor w]
    build_network_known [of d act ns na w is_actor]
  by (cases "d = 1") auto

lemma create_networks_config_error:
  assumes "0 \<le> ns" "0 \<le> na" "0 \<le> critic_mlp_width tp" "0 \<le> actor_mlp_width tp"
  shows "(\<exists>msg. create_networks ns na tp = Inl (PyException msg)) \<longleftrightarrow>
     critic_mlp_depth tp \<le> 0
     \<or> (shared tp \<and> critic_mlp_depth tp \<le> 1)
     \<or> (\<not> shared tp \<and> actor_mlp_depth tp \<le> 0)
     \<or> (train_params.activation tp \<noteq> ''ReLU'' \<and> train_params.activation tp \<noteq> ''Tanh''
         \<and> (1 < critic_mlp_depth tp \<or> (\<not> shared tp \<and> 1 < actor_mlp_depth tp)))"
  (is "?L \<longleftrightarrow> ?R")
proof (cases "critic_mlp_depth tp \<le> 0
    \<or> (1 < critic_mlp_depth tp \<and> train_params.activation tp \<noteq> ''ReLU''
        \<and> train_params.activation tp \<noteq> ''Tanh'')")
  case True
  then have "\<exists>msg. build_network ns na (train_params.activation tp) False (critic_mlp_depth tp)
                     (critic_mlp_width tp) = Inl (PyException msg)"
    using assms by (simp add: build_network_config_error)
  then have ?L
    by (auto simp: create_networks_def thenE_def)
  moreover have ?R using True by auto
  ultimately show ?thesis by simp
next
  case critic_ok: False
  then obtain critic where critic:
    "build_network ns na (train_params.activation tp) False (critic_mlp_depth tp)
       (critic_mlp_width tp) = Inr critic"
    using build_network_total [OF assms(1,2,3)] by blast
  show ?thesis
  proof (cases "shared tp")
    case True
    then show ?thesis
      using critic critic_ok assms
      by (auto simp: create_networks_def thenE_def nn_Linear_ok)
  next
    case False
    have "?L \<longleftrightarrow> (\<exists>msg. build_network ns na (train_params.activation tp) True
                            (actor_mlp_depth tp) (actor_mlp_width tp) = Inl (PyException msg))"
      using critic False by (auto simp: create_networks_def thenE_def split: sum.splits)
    then show ?thesis
      using False critic_ok assms by (auto simp: build_network_config_error)
  qed
qed

lemma load_no_config_error: "load lsd files self path \<noteq> Inl (PyException msg)"
  by (simp add: load_def split: option.splits)

section \<open>Claims on the construction of a policy\<close>

text \<open>
  Claim C5, as the code has it.  For a state size, an action size and layer widths that are
  not negative (for a negative size \<^verbatim>\<open>nn.Linear\<close> raises an error of the tensor library,
  which may come first), \<^verbatim>\<open>PsPPOPolicy.__init__\<close> raises one of its configuration
  errors exactly when the critic depth is not positive, or shared mode is requested with a
  critic depth of at most one, or separate networks are requested with an actor depth that
  is not positive, or the activation name is neither \<^verbatim>\<open>ReLU\<close> nor \<^verbatim>\<open>Tanh\<close> and a
  network that is built has a depth above one (the critic, or the actor of its own).  The
  activation name is looked up only where an activation layer is inserted, and shared mode
  takes its sizes from the critic: the actor depth is not read there.
\<close>

theorem PsPPOPolicy_init_config_error:
  assumes "0 \<le> ns" "0 \<le> na" "0 \<le> critic_mlp_width tp" "0 \<le> actor_mlp_width tp"
  shows "(\<exists>msg. PsPPOPolicy_init init_params lsd files ns na tp = Inl (PyException msg)) \<longleftrightarrow>
     critic_mlp_depth tp \<le> 0
     \<or> (shared tp \<and> critic_mlp_depth tp \<le> 1)
     \<or> (\<not> shared tp \<and> actor_mlp_depth tp \<le> 0)
     \<or> (train_params.activation tp \<noteq> ''ReLU'' \<and> train_params.activation tp \<noteq> ''Tanh''
         \<and> (1 < critic_mlp_depth tp \<or> (\<not> shared tp \<and> 1 < actor_mlp_depth tp)))"
proof -
  have "(\<exists>msg. PsPPOPolicy_init init_params lsd files ns na tp = Inl (PyException msg))
      \<longleftrightarrow> (\<exists>msg. create_networks ns na tp = Inl (PyException msg))"
    by (cases "create_networks ns na tp")
      (auto simp: PsPPOPolicy_init_def thenE_def Let_def load_no_config_error
        split: option.splits prod.splits)
  then show ?thesis
    by (simp only: create_networks_config_error [OF assms])
qed


text \<open>
  Shared mode with critic depth one raises and with critic depth two it does not; separate
  networks of depth four with the activation name \<^verbatim>\<open>Sigmoid\<close> raise.
\<close>

theorem PsPPOPolicy_init_config_error_witness:
  "(\<exists>msg. PsPPOPolicy_init unit_params unit_state_dict no_files 231 5
            (example_params True 1 4 ''Tanh'') = Inl (PyException msg))
   \<and> \<not> (\<exists>msg. PsPPOPolicy_init unit_params unit_state_dict no_files 231 5
            (example_params True 2 4 ''Tanh'') = Inl (PyException msg))
   \<and> (\<exists>msg. PsPPOPolicy_init unit_params unit_state_dict no_files 231 5
            (example_params False 4 4 ''Sigmoid'') = Inl (PyException msg))"
  using PsPPOPolicy_init_config_error [where ns = 231 and na = 5
      and tp = "example_params True 1 4 ''Tanh''" and init_params = unit_params
      and lsd = unit_state_dict and files = no_files]
    PsPPOPolicy_init_config_error [where ns = 231 and na = 5
      and tp = "example_params True 2 4 ''Tanh''" and init_params = unit_params
      and lsd = unit_state_dict and files = no_files]
    PsPPOPolicy_init_config_error [where ns = 231 and na = 5
      and tp = "example_params False 4 4 ''Sigmoid''" and init_params = unit_params
      and lsd = unit_state_dict and files = no_files]
  by (simp add: example_params_def)

text \<open>
  Claim C5 as stated fails: with the unrecognised activation name \<^verbatim>\<open>Sigmoid\<close> and two
  networks of depth one the construction succeeds (no activation layer is needed), and in
  shared mode an actor depth of zero is accepted.
\<close>

theorem unknown_activation_constructs:
  "PsPPOPolicy_init unit_params unit_state_dict no_files 231 5
     (example_params False 1 1 ''Sigmoid'') =
   Inr (\<lparr>state_size = 231, action_size = 5, activation = ''Sigmoid'',
         critic_network = [(''critic_input'', Linear 231 1)],
         actor_network = [(''actor_input'', Linear 231 5)], params = ()\<rparr>,
        [''Loading file failed. File not found.''])
   \<and> PsPPOPolicy_init unit_params unit_state_dict no_files 231 5
     (example_params True 2 0 ''Tanh'') =
   Inr (\<lparr>state_size = 231, action_size = 5, activation = ''Tanh'',
         critic_network = [(''critic_input'', Linear 231 256),
                           (''critic_input_activation(Tanh)'', Tanh),
                           (''critic_layer_1'', Linear 256 1)],
         actor_network = [(''critic_input'', Linear 231 256),
                          (''critic_input_activation(Tanh)'', Tanh),
                          (''actor_output_layer'', Linear 256 5)], params = ()\<rparr>,
        [''Loading file failed. File not found.''])"
  by (simp add: PsPPOPolicy_init_def create_networks_def build_network_def add_layer_def
      get_activation_def thenE_def Let_def load_def no_files_def example_params_def
      unit_params_def nn_Linear_def string_of_nat.simps upt_conv_Cons)

section \<open>Lemmas on the update\<close>

lemma foldE_preserves:
  assumes "\<And>x s s'. f x s = Inr s' \<Longrightarrow> P s \<Longrightarrow> P s'"
    and "foldE f xs s = Inr s'" "P s"
  shows "P s'"
  using assms(2,3)
proof (induction xs arbitrary: s)
  case Nil
  then show ?case by simp
next
  case (Cons x xs)
  then obtain s1 where s1: "f x s = Inr s1" "foldE f xs s1 = Inr s'"
    by (auto split: sum.splits)
  have "P s1" using assms(1) s1(1) Cons.prems(2) by blast
  then show ?case using Cons.IH s1(2) by blast
qed


lemma minibatch_policy_old:
  assumes "minibatch T w bsz b s = Inr s'"
  shows "policy_old s' = policy_old s"
  using assms
  by (auto simp: minibatch_def thenE_def Let_def split: prod.splits sum.splits option.splits)

lemma minibatches_policy_old:
  assumes "foldE (minibatch T w bsz) bs s = Inr s'"
  shows "policy_old s' = policy_old s"
proof (rule foldE_preserves [where P = "\<lambda>x. policy_old x = policy_old s", OF _ assms])
  show "policy_old y = policy_old s"
    if "minibatch T w bsz b x = Inr y" "policy_old x = policy_old s" for b x y
    using minibatch_policy_old [OF that(1)] that(2) by simp
  show "policy_old s = policy_old s" ..
qed

lemma epoch_policy_old:
  assumes "epoch T w bsz s = Inr s'"
  shows "policy_old s' = policy_old s"
proof -
  obtain starts where "foldE (minibatch T w (nat bsz)) starts s = Inr s'"
    using assms by (auto simp: epoch_def thenE_def split: sum.splits)
  then show ?thesis
    by (rule minibatches_policy_old)
qed

lemma epochs_policy_old:
  assumes "foldE (\<lambda>e. epoch T w bsz) es s = Inr s'"
  shows "policy_old s' = policy_old s"
proof (rule foldE_preserves [where P = "\<lambda>x. policy_old x = policy_old s", OF _ assms])
  show "policy_old y = policy_old s"
    if "epoch T w bsz x = Inr y" "policy_old x = policy_old s" for x y
    using epoch_policy_old [OF that(1)] that(2) by simp
  show "policy_old s = policy_old s" ..
qed

lemma state_at_policy_old:
  assumes "state_at T w self e k = Inr s"
  shows "policy_old s = policy_old self"
proof -
  obtain s1 starts where s1: "foldE (\<lambda>e. epoch T w (batch_size self)) [0..<e] self = Inr s1"
    and s: "foldE (minibatch T w (nat (batch_size self))) (take k starts) s1 = Inr s"
    using assms by (auto simp: state_at_def thenE_def split: sum.splits)
  show ?thesis
    using minibatches_policy_old [OF s] epochs_policy_old [OF s1] by simp
qed

section \<open>Claims on the update\<close>

text \<open>
  Claim C3.  When \<^verbatim>\<open>update\<close> returns, the loops have run to their end on the window
  taken from the buffer; at every point inside the loops (after \<open>e\<close> passes of the outer
  loop and \<open>k\<close> mini-batches of the next) \<^verbatim>\<open>self.policy_old\<close> is the object it was at
  the call, parameters included; and the trainer returned is the one the loops end in with
  the parameters of \<^verbatim>\<open>self.policy_old\<close> overwritten, once, by those of
  \<^verbatim>\<open>self.policy\<close>.
\<close>

theorem update_changes_policy_old_once:
  assumes "update T self memory a = Inr (self', memory')"
  shows "\<exists>w s. take_window memory a = Inr (w, memory') \<and> optimize T w self = Inr s \<and>
           (\<forall>e k s'. state_at T w self e k = Inr s' \<longrightarrow> policy_old s' = policy_old self) \<and>
           policy_old s = policy_old self \<and>
           self' = s\<lparr>policy_old := (policy_old self)\<lparr>params := params (policy s)\<rparr>\<rparr> \<and>
           params (policy_old self') = params (policy self')"
proof -
  obtain w s where w: "take_window memory a = Inr (w, memory')"
    and s: "optimize T w self = Inr s"
    and self': "self' = s\<lparr>policy_old := (policy_old s)\<lparr>params := params (policy s)\<rparr>\<rparr>"
    using assms by (auto simp: update_def thenE_def split: sum.splits prod.splits)
  have old: "policy_old s = policy_old self"
    using s unfolding optimize_def by (rule epochs_policy_old)
  show ?thesis
    using w s old self' by (auto simp: state_at_policy_old)
qed


text \<open>The window \<^verbatim>\<open>update\<close> takes from a buffer of at least two transitions.\<close>

lemma py_index_update [simp]: "py_index (xss[i := v]) a = py_index xss a"
  by (simp add: py_index_def)

lemma pop_at_ok:
  assumes "py_index xss a = Inr i" "xss ! i \<noteq> []"
  shows "pop_at xss a = Inr (last (xss ! i), xss[i := butlast (xss ! i)])"
  using assms by (simp add: pop_at_def thenE_def)

lemma item_at_update:
  assumes "py_index xss a = Inr i"
  shows "item_at (xss[i := v]) a = Inr v"
  using assms py_index_bound [OF assms] by (simp add: item_at_def thenE_def)




text \<open>
  A buffer of a single transition leaves nothing to stack: \<^verbatim>\<open>update\<close> raises in
  \<^verbatim>\<open>torch.stack\<close> before any mini-batch.
\<close>

lemma update_single_transition:
  assumes idx: "py_index (rewards memory) a = Inr i" "py_index (dones memory) a = Inr i"
      "py_index (states memory) a = Inr i" "py_index (actions memory) a = Inr i"
      "py_index (masks memory) a = Inr i" "py_index (logs_of_action_prob memory) a = Inr i"
    and len: "length (rewards memory ! i) = 1" "length (dones memory ! i) = 1"
      "length (states memory ! i) = 1" "length (actions memory ! i) = 1"
      "length (masks memory ! i) = 1" "length (logs_of_action_prob memory ! i) = 1"
  shows "update T self memory a = Inl RuntimeError"
proof -
  have ne: "rewards memory ! i \<noteq> []" "dones memory ! i \<noteq> []" "states memory ! i \<noteq> []"
    "actions memory ! i \<noteq> []" "masks memory ! i \<noteq> []" "logs_of_action_prob memory ! i \<noteq> []"
    using len by auto
  note pops = pop_at_ok [OF idx(1) ne(1)] pop_at_ok [OF idx(2) ne(2)] pop_at_ok [OF idx(3) ne(3)]
    pop_at_ok [OF idx(4) ne(4)] pop_at_ok [OF idx(5) ne(5)] pop_at_ok [OF idx(6) ne(6)]
  have "butlast (states memory ! i) = []"
    using len(3) by (cases "states memory ! i") auto
  then have "thenE (item_at ((states memory)[i := butlast (states memory ! i)]) a) torch_stack
      = Inl RuntimeError"
    using idx(3) by (simp add: item_at_update thenE_def torch_stack_def)
  then have "take_window memory a = Inl RuntimeError"
    unfolding take_window_def pops by (simp add: thenE_def)
  then show ?thesis
    by (simp add: update_def thenE_def)
qed


lemma length_slice: "length (slice xs i j) = min (j - i) (length xs - i)"
  by (simp add: slice_def)

lemma batch_lengths:
  assumes "length (old_states w) = n" "length (window_rewards w) = n"
    and "length (window_dones w) = n" "b < n" "0 < bsz"
  shows "slice (window_rewards w) b (b + bsz) \<noteq> []"
    and "length (slice (window_dones w) b (b + bsz)) = length (slice (window_rewards w) b (b + bsz))"
    and "length (entries (batch_values T w bsz b s))
           = length (slice (window_rewards w) b (b + bsz)) + 1"
proof -
  show "slice (window_rewards w) b (b + bsz) \<noteq> []"
    using assms by (simp add: slice_def)
  show "length (slice (window_dones w) b (b + bsz)) = length (slice (window_rewards w) b (b + bsz))"
    using assms by (simp add: length_slice)
  show "length (entries (batch_values T w bsz b s))
           = length (slice (window_rewards w) b (b + bsz)) + 1"
    using assms
    by (auto simp: batch_values_def batch_inputs_def evaluate_def length_slice min_def)
qed

lemma get_advs_column_total:
  assumes "length ds = length rs" "length vs = length rs + 1"
  shows "\<exists>advs. get_advs s rs ds (Column vs) = Inr advs"
proof (cases "gae s")
  case True
  then show ?thesis
    using get_advs_gae_closed [of s ds rs "Column vs"] assms by simp
next
  case False
  then show ?thesis
    using get_advs_nstep_column [of s ds rs vs] assms by simp
qed

lemma batch_values_column: "batch_values T w bsz b s = Column (entries (batch_values T w bsz b s))"
  by (simp add: batch_values_def evaluate_def split: prod.splits)

lemma minibatch_get_advs_total:
  assumes "length (old_states w) = n" "length (window_rewards w) = n"
    and "length (window_dones w) = n" "b < n" "0 < bsz"
  shows "\<exists>advs. get_advs s (slice (window_rewards w) b (b + bsz))
                  (slice (window_dones w) b (b + bsz)) (batch_values T w bsz b s) = Inr advs"
proof -
  have "\<exists>advs. get_advs s (slice (window_rewards w) b (b + bsz))
                  (slice (window_dones w) b (b + bsz))
                  (Column (entries (batch_values T w bsz b s))) = Inr advs"
    using batch_lengths(2) [OF assms] batch_lengths(3) [OF assms, where T = T and s = s]
    by (intro get_advs_column_total) simp_all
  then show ?thesis
    using batch_values_column [of T w bsz b s] by simp
qed











text \<open>
  A run of \<^verbatim>\<open>update\<close>: a tensor library whose gradient step counts (the parameters are
  the number of steps taken), two passes over a window of two transitions with mini-batches
  of one.
\<close>

lemma minibatch_counting:
  assumes "length (old_states w) = n" "length (window_rewards w) = n"
    and "length (window_dones w) = n" "b < n" "0 < bsz"
    and "length (old_actions w) = n" "length (old_masks w) = n"
    and "length (old_logs_of_action_prob w) = n"
  shows "minibatch counting_torch w bsz b s =
     Inr (s\<lparr>policy := (policy s)\<lparr>params := Suc (params (policy s))\<rparr>, optimizer := (),
            loss := Fin 0\<rparr>)"
proof -
  obtain advs where advs: "get_advs s (slice (window_rewards w) b (b + bsz))
      (slice (window_dones w) b (b + bsz)) (batch_values counting_torch w bsz b s) = Inr advs"
    using minibatch_get_advs_total [OF assms(1-5)] by blast
  obtain sts acts msks where bi: "batch_inputs w b (b + bsz) = (sts, acts, msks)"
    by (cases "batch_inputs w b (b + bsz)") auto
  have lens: "length (butlast sts) = length (slice (old_logs_of_action_prob w) b (b + bsz))"
    "length (butlast acts) = length (butlast sts)" "length (butlast msks) = length (butlast sts)"
    using bi assms by (auto simp: batch_inputs_def length_slice min_def split: if_splits)
  obtain lp v ent where ev: "evaluate counting_torch (policy s) sts acts msks = (lp, v, ent)"
    by (cases "evaluate counting_torch (policy s) sts acts msks") auto
  have "length lp = length (slice (old_logs_of_action_prob w) b (b + bsz))"
    using ev lens by (auto simp: evaluate_def)
  then obtain d where d: "tensor_sub lp (slice (old_logs_of_action_prob w) b (b + bsz)) = Inr d"
    by (simp add: tensor_sub_def)
  have v: "batch_values counting_torch w bsz b s = v"
    using bi ev by (simp add: batch_values_def)
  show ?thesis
    using bi ev d advs [unfolded v]
    by (simp add: minibatch_def thenE_def Let_def counting_torch_def)
qed


lemma example_take_window:
  "take_window example_memory 1 = Inr (example_window, example_memory_popped)"
  by (simp add: take_window_def pop_at_def item_at_def torch_stack_def py_index_def thenE_def
      example_memory_def example_window_def example_memory_popped_def)

lemma example_range: "range_step 2 1 = Inr [0, 1]"
  by (simp add: range_step_def upt_conv_Cons)

lemma example_minibatch:
  assumes "b < 2"
  shows "minibatch counting_torch example_window (Suc 0) b s =
     Inr (s\<lparr>policy := (policy s)\<lparr>params := Suc (params (policy s))\<rparr>, optimizer := (),
            loss := Fin 0\<rparr>)"
  by (rule minibatch_counting [where n = 2]) (simp_all add: example_window_def assms)

lemma example_epoch:
  "epoch counting_torch example_window 1 s =
     Inr (s\<lparr>policy := (policy s)\<lparr>params := Suc (Suc (params (policy s)))\<rparr>, optimizer := (),
            loss := Fin 0\<rparr>)"
proof -
  have "length (old_states example_window) = 2"
    by (simp add: example_window_def)
  then show ?thesis
    by (simp add: epoch_def thenE_def example_range example_minibatch)
qed

lemma example_update:
  "update counting_torch (counting_ppo 2 1 0 0) example_memory 1 =
     Inr (counting_ppo 2 1 4 4, example_memory_popped)"
proof -
  have "[0..<nat (epochs (counting_ppo 2 1 0 0))] = [0, 1]"
    by (simp add: counting_ppo_def upt_conv_Cons)
  then have "optimize counting_torch example_window (counting_ppo 2 1 0 0) =
      Inr (counting_ppo 2 1 4 0)"
    by (simp add: optimize_def example_epoch counting_ppo_def counting_policy_def)
  then show ?thesis
    by (simp add: update_def thenE_def example_take_window counting_ppo_def counting_policy_def)
qed


lemma example_state_at:
  "state_at counting_torch example_window (counting_ppo 2 1 0 0) 1 1 = Inr (counting_ppo 2 1 3 0)"
proof -
  have "length (old_states example_window) = 2"
    by (simp add: example_window_def)
  then show ?thesis
    by (simp add: state_at_def thenE_def example_epoch example_range example_minibatch
        counting_ppo_def counting_policy_def)
qed

text \<open>
  In that run the old policy still has parameters \<open>0\<close> after three of the four gradient
  steps, and \<open>4\<close>, those of the current policy, when \<^verbatim>\<open>update\<close> returns.
\<close>

theorem update_changes_policy_old_once_witness:
  "update counting_torch (counting_ppo 2 1 0 0) example_memory 1
     = Inr (counting_ppo 2 1 4 4, example_memory_popped)
   \<and> state_at counting_torch example_window (counting_ppo 2 1 0 0) 1 1
     = Inr (counting_ppo 2 1 3 0)
   \<and> (\<exists>w s. take_window example_memory 1 = Inr (w, example_memory_popped) \<and>
          optimize counting_torch w (counting_ppo 2 1 0 0) = Inr s \<and>
          (\<forall>e k s'. state_at counting_torch w (counting_ppo 2 1 0 0) e k = Inr s' \<longrightarrow>
             policy_old s' = policy_old (counting_ppo 2 1 0 0)) \<and>
          policy_old s = policy_old (counting_ppo 2 1 0 0) \<and>
          counting_ppo 2 1 4 4 =
            s\<lparr>policy_old := (policy_old (counting_ppo 2 1 0 0))\<lparr>params := params (policy s)\<rparr>\<rparr> \<and>
          params (policy_old (counting_ppo 2 1 4 4)) = params (policy (counting_ppo 2 1 4 4)))"
proof (intro conjI)
  show "update counting_torch (counting_ppo 2 1 0 0) example_memory 1
     = Inr (counting_ppo 2 1 4 4, example_memory_popped)"
    by (rule example_update)
  show "state_at counting_torch example_window (counting_ppo 2 1 0 0) 1 1
     = Inr (counting_ppo 2 1 3 0)"
    by (rule example_state_at)
  show "\<exists>w s. take_window example_memory 1 = Inr (w, example_memory_popped) \<and>
          optimize counting_torch w (counting_ppo 2 1 0 0) = Inr s \<and>
          (\<forall>e k s'. state_at counting_torch w (counting_ppo 2 1 0 0) e k = Inr s' \<longrightarrow>
             policy_old s' = policy_old (counting_ppo 2 1 0 0)) \<and>
          policy_old s = policy_old (counting_ppo 2 1 0 0) \<and>
          counting_ppo 2 1 4 4 =
            s\<lparr>policy_old := (policy_old (counting_ppo 2 1 0 0))\<lparr>params := params (policy s)\<rparr>\<rparr> \<and>
          params (policy_old (counting_ppo 2 1 4 4)) = params (policy (counting_ppo 2 1 4 4))"
    by (rule update_changes_policy_old_once [OF example_update])
qed


end
